theory Spec2Isabelle
  imports Complex_Main "HOL-Library.Word"
begin

section \<open>Python numerics\<close>

text \<open>
  The generator \<^verbatim>\<open>chimerox.py\<close> computes with Python floats and integers. Integers are
  unbounded and are modelled as \<open>int\<close>. Floats are modelled as \<open>real\<close>: arithmetic is
  exact, \<open>math.sin\<close>, \<open>math.cos\<close> and \<open>math.sqrt\<close> are the functions of analysis, and
  neither rounding nor infinities nor NaN exist in the model. The one exception is the
  product that fixes the number of particles: it is truncated to an integer and reaches
  whole numbers on ordinary inputs, so it is computed in binary64 arithmetic, operation
  by operation, as the source does. The two exceptions that the arithmetic of the source
  can raise on finite inputs are kept as values of \<open>error\<close>: a float modulo by zero, and
  a canvas with a negative dimension.
\<close>

datatype error = ZeroDivisionError | ValueError

text \<open>\<^verbatim>\<open>int(v)\<close> on a float truncates toward zero.\<close>

definition py_int :: "real \<Rightarrow> int" where
  "py_int v = (if 0 \<le> v then \<lfloor>v\<rfloor> else \<lceil>v\<rceil>)"

text \<open>\<^verbatim>\<open>a % m\<close> on floats, for \<open>m \<noteq> 0\<close>: the result has the sign of \<open>m\<close>.\<close>

definition py_fmod :: "real \<Rightarrow> real \<Rightarrow> real" where
  "py_fmod a m = a - m * of_int \<lfloor>a / m\<rfloor>"

text \<open>\<^verbatim>\<open>range(start, stop, step)\<close>; every call of the source has \<open>step \<noteq> 0\<close>.\<close>

definition py_range :: "int \<Rightarrow> int \<Rightarrow> int \<Rightarrow> int list" where
  "py_range start stop step =
     (if 0 < step
      then map (\<lambda>j. start + int j * step) [0..<nat ((stop - start + step - 1) div step)]
      else if step < 0
      then map (\<lambda>j. start + int j * step) [0..<nat ((start - stop - step - 1) div (- step))]
      else [])"

text \<open>
  IEEE 754 binary64, round to nearest, ties to even: \<open>double v\<close> is the double nearest to
  \<open>v\<close>, that is \<open>v\<close> rounded to 53 significant bits. On a double it is the identity. The
  exponent is not bounded, so overflow and subnormal numbers are not modelled. \<open>fmul\<close>
  and \<open>fadd\<close> are the float product and sum of two doubles.
\<close>

definition pow2 :: "int \<Rightarrow> real" where
  "pow2 k = (if 0 \<le> k then 2 ^ nat k else 1 / 2 ^ nat (- k))"

definition nearest_even :: "real \<Rightarrow> int" where
  "nearest_even v =
     (let f = \<lfloor>v\<rfloor>; d = v - of_int f
      in if d < 1 / 2 then f else if 1 / 2 < d then f + 1 else if even f then f else f + 1)"

definition double :: "real \<Rightarrow> real" where
  "double v =
     (if v = 0 then 0
      else let e = \<lfloor>log 2 \<bar>v\<bar>\<rfloor>; q = pow2 (e - 52)
           in of_int (nearest_even (v / q)) * q)"

definition fmul :: "real \<Rightarrow> real \<Rightarrow> real" where
  "fmul a b = double (a * b)"

definition fadd :: "real \<Rightarrow> real \<Rightarrow> real" where
  "fadd a b = double (a + b)"

definition atan2 :: "real \<Rightarrow> real \<Rightarrow> real" where
  "atan2 b a =
     (if 0 < a then arctan (b / a)
      else if a < 0 \<and> 0 \<le> b then arctan (b / a) + pi
      else if a < 0 then arctan (b / a) - pi
      else if 0 < b then pi / 2
      else if b < 0 then - (pi / 2)
      else 0)"

section \<open>Raster images and the library the generator calls\<close>

text \<open>
  A canvas is a NumPy array of shape \<open>(rows, cols, 3)\<close> and element type \<open>uint8\<close>.
  Drawing calls of OpenCV write into the array they are given and cannot change its
  shape, so the library's drawing functions return the new pixel contents only.
\<close>

type_synonym pixel = "8 word \<times> 8 word \<times> 8 word"
type_synonym color = "int \<times> int \<times> int"
type_synonym point = "int \<times> int"
type_synonym raster = "nat \<Rightarrow> nat \<Rightarrow> pixel"
type_synonym field = "nat \<Rightarrow> nat \<Rightarrow> real"

record image =
  rows :: nat
  cols :: nat
  pixels :: raster

text \<open>
  The functions of \<^verbatim>\<open>random\<close>, \<^verbatim>\<open>colorsys\<close> and \<^verbatim>\<open>cv2\<close> are not part of the repository;
  the model takes them as a parameter. \<open>'g\<close> is the state of the global generator of the
  \<^verbatim>\<open>random\<close> module: \<open>random_seed\<close> replaces it, \<open>random_random\<close> draws from it.
\<close>

record 'g library =
  random_seed :: "int \<Rightarrow> 'g"
  random_random :: "'g \<Rightarrow> real \<times> 'g"
  hsv_to_rgb :: "real \<Rightarrow> real \<Rightarrow> real \<Rightarrow> real \<times> real \<times> real"
  cv_circle :: "image \<Rightarrow> point \<Rightarrow> int \<Rightarrow> color \<Rightarrow> int \<Rightarrow> raster"
  cv_line :: "image \<Rightarrow> point \<Rightarrow> point \<Rightarrow> color \<Rightarrow> int \<Rightarrow> raster"
  cv_remap :: "image \<Rightarrow> field \<Rightarrow> field \<Rightarrow> raster"

text \<open>\<^verbatim>\<open>random.uniform(a, b)\<close> is \<^verbatim>\<open>a + (b - a) * random()\<close>.\<close>

definition uniform :: "'g library \<Rightarrow> real \<Rightarrow> real \<Rightarrow> 'g \<Rightarrow> real \<times> 'g" where
  "uniform lib a b g = (let (u, g') = random_random lib g in (a + (b - a) * u, g'))"

definition circle :: "'g library \<Rightarrow> image \<Rightarrow> point \<Rightarrow> int \<Rightarrow> color \<Rightarrow> int \<Rightarrow> image" where
  "circle lib img c r col t = img\<lparr>pixels := cv_circle lib img c r col t\<rparr>"

definition line :: "'g library \<Rightarrow> image \<Rightarrow> point \<Rightarrow> point \<Rightarrow> color \<Rightarrow> int \<Rightarrow> image" where
  "line lib img p q col t = img\<lparr>pixels := cv_line lib img p q col t\<rparr>"

text \<open>\<^verbatim>\<open>cv2.remap\<close> returns an image of the size of the maps.\<close>

definition remap :: "'g library \<Rightarrow> image \<Rightarrow> nat \<Rightarrow> nat \<Rightarrow> field \<Rightarrow> field \<Rightarrow> image" where
  "remap lib img h w map_x map_y =
     \<lparr>rows = h, cols = w, pixels = cv_remap lib img map_x map_y\<rparr>"

text \<open>
  \<^verbatim>\<open>cv2.addWeighted(src1, alpha, src2, beta, gamma)\<close> on \<open>uint8\<close> images computes, for every
  channel, \<open>src1 * alpha + src2 * beta + gamma\<close>, rounds it to the nearest integer (ties
  to even) and saturates it to \<open>0..255\<close>.
\<close>

definition cv_round :: "real \<Rightarrow> int" where
  "cv_round v =
     (let f = \<lfloor>v\<rfloor>; d = v - of_int f
      in if d < 1 / 2 then f else if 1 / 2 < d then f + 1 else if even f then f else f + 1)"

definition saturate_u8 :: "real \<Rightarrow> 8 word" where
  "saturate_u8 v = word_of_int (max 0 (min 255 (cv_round v)))"

definition weighted :: "real \<Rightarrow> real \<Rightarrow> real \<Rightarrow> 8 word \<Rightarrow> 8 word \<Rightarrow> 8 word" where
  "weighted alpha beta gamma a b =
     saturate_u8 (real (unat a) * alpha + real (unat b) * beta + gamma)"

definition addWeighted :: "image \<Rightarrow> real \<Rightarrow> image \<Rightarrow> real \<Rightarrow> real \<Rightarrow> image" where
  "addWeighted src1 alpha src2 beta gamma =
     \<lparr>rows = rows src1, cols = cols src1,
      pixels = (\<lambda>r c.
        (case (pixels src1 r c, pixels src2 r c) of
          ((a1, a2, a3), (b1, b2, b3)) \<Rightarrow>
            (weighted alpha beta gamma a1 b1,
             weighted alpha beta gamma a2 b2,
             weighted alpha beta gamma a3 b3)))\<rparr>"

section \<open>The generator's data\<close>

record particle =
  p_x :: real
  p_y :: real
  p_vx :: real
  p_vy :: real
  p_size :: real
  p_age :: int
  p_life :: real
  p_orbit_radius :: real
  p_orbit_speed :: real
  p_color_offset :: real

record bokeh =
  b_x :: real
  b_y :: real
  b_size :: real
  b_hue :: real
  b_flicker_offset :: real
  b_movement_angle :: real
  b_depth :: real

record vortex =
  v_x :: real
  v_y :: real
  v_orbit_radius :: real
  v_orbit_speed :: real
  v_strength :: real

record distortion_center =
  d_x :: real
  d_y :: real
  d_strength :: real
  d_radius :: real
  d_rotation_speed :: real
  d_phase_offset :: real

text \<open>The arguments of \<^verbatim>\<open>Chimerox.__init__\<close>.\<close>

record config =
  iota :: int
  omicron :: int
  phase :: real
  threshold :: int
  resonance :: real
  entropy :: real
  width :: int
  height :: int
  duration :: int
  fps :: int

text \<open>The attributes of a \<^verbatim>\<open>Chimerox\<close> object: the arguments and what the constructor adds.\<close>

record chimerox = config +
  total_frames :: int
  num_particles :: int
  particles :: "particle list"
  base_hue :: real
  hue_shift :: real
  bokeh_particles :: "bokeh list"
  bokeh_movement_speed :: real
  wave_count :: int
  wave_curves :: int
  wave_depth :: real
  wave_speed :: real
  wave_opacity :: int
  vortex_centers :: "vortex list"
  vortex_intensity :: real
  vortex_rotation_speed :: real
  distortion_strength :: real
  distortion_type :: int
  distortion_speed :: real
  distortion_centers :: "distortion_center list"

section \<open>Construction\<close>

text \<open>
  The dictionary that \<^verbatim>\<open>_init_particles\<close> builds for one particle: its fields are
  evaluated in the order they are written, each \<^verbatim>\<open>random.uniform\<close> drawing from the
  global generator.
\<close>

definition new_particle :: "'g library \<Rightarrow> chimerox \<Rightarrow> 'g \<Rightarrow> particle \<times> 'g" where
  "new_particle lib self g =
     (let (x, g) = uniform lib 0 (of_int (width self)) g;
          (y, g) = uniform lib 0 (of_int (height self)) g;
          (vx, g) = uniform lib (- 4) 4 g;
          (vy, g) = uniform lib (- 4) 4 g;
          (sz, g) = uniform lib 2 12 g;
          (life, g) = uniform lib 80 300 g;
          (orbit_radius, g) = uniform lib 20 200 g;
          (orbit_speed, g) = uniform lib 0.02 0.08 g;
          (color_offset, g) = uniform lib 0 1 g
      in (\<lparr>p_x = x, p_y = y,
           p_vx = vx * entropy self, p_vy = vy * entropy self,
           p_size = sz, p_age = 0, p_life = life,
           p_orbit_radius = orbit_radius,
           p_orbit_speed = orbit_speed * resonance self,
           p_color_offset = color_offset\<rparr>, g))"

text \<open>
  One pass of the loop of \<^verbatim>\<open>_init_particles\<close>: the global generator is re-seeded, whatever
  its state was, and the new particle is appended.
\<close>

definition init_particles_step ::
  "'g library \<Rightarrow> chimerox \<Rightarrow> int \<Rightarrow> particle list \<times> 'g \<Rightarrow> particle list \<times> 'g" where
  "init_particles_step lib self i s =
     (let seed_offset = (iota self + i * omicron self) mod 10000;
          g = random_seed lib seed_offset;
          (p, g) = new_particle lib self g
      in (fst s @ [p], g))"

definition init_particles :: "'g library \<Rightarrow> chimerox \<Rightarrow> 'g \<Rightarrow> particle list \<times> 'g" where
  "init_particles lib self g =
     fold (init_particles_step lib self) (py_range 0 (num_particles self) 1) ([], g)"

definition init_bokeh_step ::
  "'g library \<Rightarrow> chimerox \<Rightarrow> int \<Rightarrow> bokeh list \<times> 'g \<Rightarrow> bokeh list \<times> 'g" where
  "init_bokeh_step lib self i s =
     (let palette_range = of_int (omicron self mod 300) / 300;
          (r, g) = random_random lib (snd s);
          hue_variation = (r - 0.5) * palette_range;
          hue = py_fmod (base_hue self + hue_variation) 1;
          (x, g) = uniform lib (- 100) (of_int (width self + 100)) g;
          (y, g) = uniform lib (- 100) (of_int (height self + 100)) g;
          (sz, g) = uniform lib 40 180 g;
          (flicker_offset, g) = uniform lib 0 (pi * 2) g;
          (movement_angle, g) = uniform lib 0 (pi * 2) g;
          (depth, g) = uniform lib 0.4 1.2 g
      in (fst s @
          [\<lparr>b_x = x, b_y = y, b_size = sz, b_hue = hue,
            b_flicker_offset = flicker_offset,
            b_movement_angle = movement_angle, b_depth = depth\<rparr>], g))"

definition init_bokeh :: "'g library \<Rightarrow> chimerox \<Rightarrow> 'g \<Rightarrow> bokeh list \<times> 'g" where
  "init_bokeh lib self g =
     (let bokeh_count = py_int (25 + of_int (threshold self) * 0.08)
      in fold (init_bokeh_step lib self) (py_range 0 bokeh_count 1) ([], g))"

definition init_vortex_centers_step ::
  "'g library \<Rightarrow> chimerox \<Rightarrow> int \<Rightarrow> vortex list \<times> 'g \<Rightarrow> vortex list \<times> 'g" where
  "init_vortex_centers_step lib self i s =
     (let (x, g) = uniform lib (0.2 * of_int (width self)) (0.8 * of_int (width self)) (snd s);
          (y, g) = uniform lib (0.2 * of_int (height self)) (0.8 * of_int (height self)) g;
          (orbit_radius, g) = uniform lib 50 150 g;
          (orbit_speed, g) = uniform lib 0.005 0.02 g;
          (strength, g) = uniform lib 0.5 1.5 g
      in (fst s @
          [\<lparr>v_x = x, v_y = y, v_orbit_radius = orbit_radius,
            v_orbit_speed = orbit_speed * resonance self,
            v_strength = strength * entropy self\<rparr>], g))"

definition init_vortex_centers :: "'g library \<Rightarrow> chimerox \<Rightarrow> 'g \<Rightarrow> vortex list \<times> 'g" where
  "init_vortex_centers lib self g =
     (let vortex_count = py_int (2 + entropy self * 3)
      in fold (init_vortex_centers_step lib self) (py_range 0 vortex_count 1) ([], g))"

definition init_distortion_centers_step ::
  "'g library \<Rightarrow> chimerox \<Rightarrow> int \<Rightarrow> distortion_center list \<times> 'g
     \<Rightarrow> distortion_center list \<times> 'g" where
  "init_distortion_centers_step lib self i s =
     (let (x, g) = uniform lib (0.3 * of_int (width self)) (0.7 * of_int (width self)) (snd s);
          (y, g) = uniform lib (0.3 * of_int (height self)) (0.7 * of_int (height self)) g;
          (strength, g) = uniform lib 0.5 1.5 g;
          (radius, g) = uniform lib 100 (of_int (min (width self) (height self)) * 0.4) g;
          (rotation_speed, g) = uniform lib 0.005 0.02 g;
          (phase_offset, g) = uniform lib 0 (pi * 2) g
      in (fst s @
          [\<lparr>d_x = x, d_y = y,
            d_strength = strength * distortion_strength self,
            d_radius = radius,
            d_rotation_speed = rotation_speed * distortion_speed self,
            d_phase_offset = phase_offset\<rparr>], g))"

definition init_distortion_centers ::
  "'g library \<Rightarrow> chimerox \<Rightarrow> 'g \<Rightarrow> distortion_center list \<times> 'g" where
  "init_distortion_centers lib self g =
     (if distortion_strength self < 0.1 then ([], g)
      else
        let center_count = py_int (1 + entropy self * 2)
        in fold (init_distortion_centers_step lib self) (py_range 0 center_count 1) ([], g))"

text \<open>
  The object before the constructor has assigned anything but its arguments. The other
  attributes do not exist yet in Python; the constructor assigns each of them before
  anything reads it, so the values written here are never used.
\<close>

definition unassigned :: "config \<Rightarrow> chimerox" where
  "unassigned cfg =
     config.extend cfg
       (chimerox.fields 0 0 [] 0 0 [] 0 0 0 0 0 0 [] 0 0 0 0 0 [])"

text \<open>
  \<^verbatim>\<open>Chimerox.__init__\<close>. \<open>g0\<close> is the state of the global generator when the constructor
  is entered; \<^verbatim>\<open>random.seed(iota)\<close> replaces it. The particle count is
  \<^verbatim>\<open>int(threshold * 0.15 * (0.3 + entropy * 0.7))\<close> in float arithmetic: the integer and
  the literals are converted to doubles, and every product and sum is rounded. (\<^verbatim>\<open>np.random.seed\<close> seeds NumPy's own
  generator, which nothing reads afterwards.) The result is the object and the state
  in which the constructor leaves the global generator.
\<close>

definition chimerox_init :: "'g library \<Rightarrow> config \<Rightarrow> 'g \<Rightarrow> chimerox \<times> 'g" where
  "chimerox_init lib cfg g0 =
     (let self = unassigned cfg;
          self = self\<lparr>total_frames := duration self * fps self\<rparr>;
          g = random_seed lib (iota self);
          self = self\<lparr>num_particles :=
            py_int (fmul (fmul (double (of_int (threshold self))) (double 0.15))
                      (fadd (double 0.3) (fmul (double (entropy self)) (double 0.7))))\<rparr>;
          (ps, g) = init_particles lib self g;
          self = self\<lparr>particles := ps\<rparr>;
          self = self\<lparr>base_hue := of_int (iota self mod 360) / 360\<rparr>;
          self = self\<lparr>hue_shift := of_int (omicron self mod 100) / 100\<rparr>;
          (bs, g) = init_bokeh lib self g;
          self = self\<lparr>bokeh_particles := bs\<rparr>;
          self = self\<lparr>bokeh_movement_speed := 0.8 + entropy self * 0.5\<rparr>;
          self = self\<lparr>wave_count :=
            py_int (8 + (of_int (threshold self) / 100) * entropy self)\<rparr>;
          self = self\<lparr>wave_curves :=
            1 + py_int (of_int (omicron self mod 5) * entropy self)\<rparr>;
          self = self\<lparr>wave_depth :=
            60 + (of_int (threshold self) / 15) * (1 + \<bar>phase self\<bar>)\<rparr>;
          self = self\<lparr>wave_speed := 0.02 + resonance self * 0.008\<rparr>;
          self = self\<lparr>wave_opacity := py_int (80 + entropy self * 120)\<rparr>;
          (vs, g) = init_vortex_centers lib self g;
          self = self\<lparr>vortex_centers := vs\<rparr>;
          self = self\<lparr>vortex_intensity := entropy self * resonance self * 1.5\<rparr>;
          self = self\<lparr>vortex_rotation_speed := 0.03 + \<bar>phase self\<bar> * 0.05\<rparr>;
          self = self\<lparr>distortion_strength := entropy self * resonance self * 0.3\<rparr>;
          self = self\<lparr>distortion_type := omicron self mod 4\<rparr>;
          self = self\<lparr>distortion_speed := 0.02 + \<bar>phase self\<bar> * 0.03\<rparr>;
          (ds, g) = init_distortion_centers lib self g;
          self = self\<lparr>distortion_centers := ds\<rparr>
      in (self, g))"

text \<open>The value the constructor gives to \<^verbatim>\<open>num_particles\<close>, as an expression in the arguments.\<close>

abbreviation particle_total :: "'a config_scheme \<Rightarrow> int" where
  "particle_total cfg \<equiv>
     py_int (fmul (fmul (double (of_int (threshold cfg))) (double 0.15))
               (fadd (double 0.3) (fmul (double (entropy cfg)) (double 0.7))))"

section \<open>Particles\<close>

definition map3 :: "('a \<Rightarrow> 'b) \<Rightarrow> 'a \<times> 'a \<times> 'a \<Rightarrow> 'b \<times> 'b \<times> 'b" where
  "map3 f t = (case t of (a, b, c) \<Rightarrow> (f a, f b, f c))"

definition get_color :: "'g library \<Rightarrow> chimerox \<Rightarrow> int \<Rightarrow> particle \<Rightarrow> color" where
  "get_color lib self t p =
     (let base_t = (of_int t + phase self) * resonance self;
          hue_mod = py_fmod (base_hue self + p_color_offset p * hue_shift self
                             + sin (base_t * 0.01) * 0.2) 1;
          saturation = 0.7 + 0.3 * sin (base_t * 0.02 + of_int (p_age p) * 0.1);
          val = 0.8 + 0.2 * cos (base_t * 0.03);
          rgb = hsv_to_rgb lib hue_mod saturation val
      in map3 (\<lambda>c. py_int (c * 255)) rgb)"

text \<open>
  \<^verbatim>\<open>_update_particle\<close>, in the three parts its comments name. The first part moves the
  particle: forces, velocity, position. It draws once from the global generator.
\<close>

definition update_particle_move ::
  "'g library \<Rightarrow> chimerox \<Rightarrow> particle \<Rightarrow> int \<Rightarrow> 'g \<Rightarrow> particle \<times> 'g" where
  "update_particle_move lib self p frame g =
     (let t = of_int frame + phase self * 1000;
          wave_force = sin (t * 0.01 + p_x p * 0.01) * resonance self;
          (r, g) = random_random lib g;
          chaos_force = (r - 0.5) * entropy self * 2;
          orbit_t = t * p_orbit_speed p + of_int (omicron self mod 1000) * 0.01;
          orbit_x = cos orbit_t * p_orbit_radius p;
          orbit_y = sin orbit_t * p_orbit_radius p;
          p = p\<lparr>p_vx := p_vx p + (wave_force * 0.1 + chaos_force)\<rparr>;
          p = p\<lparr>p_vy := p_vy p + (cos (t * 0.008) * resonance self * 0.1 + chaos_force)\<rparr>;
          center_x = of_int (width self) / 2 + orbit_x;
          center_y = of_int (height self) / 2 + orbit_y;
          dx = center_x - p_x p;
          dy = center_y - p_y p;
          dist = sqrt (dx * dx + dy * dy);
          p = (if dist > 0
               then let force = min 1 (of_int (threshold self) / 1000);
                        p = p\<lparr>p_vx := p_vx p + (dx / dist) * force * 0.02\<rparr>
                    in p\<lparr>p_vy := p_vy p + (dy / dist) * force * 0.02\<rparr>
               else p);
          p = p\<lparr>p_x := p_x p + p_vx p\<rparr>;
          p = p\<lparr>p_y := p_y p + p_vy p\<rparr>
      in (p, g))"

text \<open>
  Boundary wrapping of one coordinate: \<^verbatim>\<open>if c < 0 or c > extent: c = (c + phase * 100) % extent\<close>.
  The modulo raises when the extent is zero.
\<close>

definition wrap :: "real \<Rightarrow> int \<Rightarrow> real \<Rightarrow> error + real" where
  "wrap ph extent c =
     (if c < 0 \<or> c > of_int extent
      then (if extent = 0 then Inl ZeroDivisionError
            else Inr (py_fmod (c + ph * 100) (of_int extent)))
      else Inr c)"

definition update_particle_wrap :: "chimerox \<Rightarrow> particle \<Rightarrow> error + particle" where
  "update_particle_wrap self p =
     (case wrap (phase self) (width self) (p_x p) of
        Inl e \<Rightarrow> Inl e
      | Inr x \<Rightarrow>
          (case wrap (phase self) (height self) (p_y p) of
             Inl e \<Rightarrow> Inl e
           | Inr y \<Rightarrow> Inr (p\<lparr>p_x := x, p_y := y\<rparr>)))"

text \<open>Ageing, and the respawn of a particle whose age has passed its life.\<close>

definition update_particle_age ::
  "'g library \<Rightarrow> chimerox \<Rightarrow> particle \<Rightarrow> 'g \<Rightarrow> particle \<times> 'g" where
  "update_particle_age lib self p g =
     (let p = p\<lparr>p_age := p_age p + 1\<rparr>
      in if of_int (p_age p) > p_life p
         then let p = p\<lparr>p_age := 0\<rparr>;
                  (x, g) = uniform lib 0 (of_int (width self)) g;
                  p = p\<lparr>p_x := x\<rparr>;
                  (y, g) = uniform lib 0 (of_int (height self)) g;
                  p = p\<lparr>p_y := y\<rparr>;
                  (life, g) = uniform lib 50 200 g
              in (p\<lparr>p_life := life\<rparr>, g)
         else (p, g))"

definition update_particle ::
  "'g library \<Rightarrow> chimerox \<Rightarrow> particle \<Rightarrow> int \<Rightarrow> 'g \<Rightarrow> error + particle \<times> 'g" where
  "update_particle lib self p frame g =
     (let (p, g) = update_particle_move lib self p frame g
      in case update_particle_wrap self p of
           Inl e \<Rightarrow> Inl e
         | Inr p \<Rightarrow> Inr (update_particle_age lib self p g))"

text \<open>The drawing of one particle in \<^verbatim>\<open>_draw_frame\<close>: disc, glow ring and trail.\<close>

definition draw_trail ::
  "'g library \<Rightarrow> chimerox \<Rightarrow> particle \<Rightarrow> color \<Rightarrow> int \<Rightarrow> int \<Rightarrow> int \<Rightarrow> int \<Rightarrow> int
     \<Rightarrow> image \<Rightarrow> image" where
  "draw_trail lib self p col x y sz trail_length i canvas =
     (let trail_x = py_int (of_int x - p_vx p * of_int i * 0.8);
          trail_y = py_int (of_int y - p_vy p * of_int i * 0.8)
      in if 0 \<le> trail_x \<and> trail_x < width self \<and> 0 \<le> trail_y \<and> trail_y < height self
         then let alpha = 1 - of_int i / of_int trail_length;
                  trail_color = map3 (\<lambda>c. py_int (of_int c * alpha * 0.8)) col;
                  trail_size = max 1 (py_int (of_int sz * alpha))
              in circle lib canvas (trail_x, trail_y) trail_size trail_color (- 1)
         else canvas)"

definition draw_particle ::
  "'g library \<Rightarrow> chimerox \<Rightarrow> int \<Rightarrow> particle \<Rightarrow> image \<Rightarrow> image" where
  "draw_particle lib self frame p canvas =
     (let col = get_color lib self frame p;
          x = py_int (p_x p);
          y = py_int (p_y p);
          sz = py_int (p_size p * (1 + sin (of_int frame * 0.02) * 0.3))
      in if 0 \<le> x \<and> x < width self \<and> 0 \<le> y \<and> y < height self
         then let canvas = circle lib canvas (x, y) sz col (- 1);
                  canvas = (if entropy self > 0.5
                            then let glow_size = sz + 3;
                                     glow_color = map3 (\<lambda>c. py_int (of_int c * 0.3)) col
                                 in circle lib canvas (x, y) glow_size glow_color 1
                            else canvas);
                  trail_length = py_int (12 + resonance self * 8)
              in fold (draw_trail lib self p col x y sz trail_length)
                   (py_range 1 trail_length 1) canvas
         else canvas)"

text \<open>
  The loop over \<^verbatim>\<open>self.particles\<close> in \<^verbatim>\<open>_draw_frame\<close>: each particle is updated, then
  drawn. An exception leaves the loop.
\<close>

fun draw_particles ::
  "'g library \<Rightarrow> chimerox \<Rightarrow> int \<Rightarrow> particle list \<Rightarrow> image \<Rightarrow> 'g
     \<Rightarrow> error + particle list \<times> image \<times> 'g" where
  "draw_particles lib self frame [] canvas g = Inr ([], canvas, g)"
| "draw_particles lib self frame (p # ps) canvas g =
     (case update_particle lib self p frame g of
        Inl e \<Rightarrow> Inl e
      | Inr (p', g') \<Rightarrow>
          (case draw_particles lib self frame ps (draw_particle lib self frame p' canvas) g' of
             Inl e \<Rightarrow> Inl e
           | Inr (ps', canvas', g'') \<Rightarrow> Inr (p' # ps', canvas', g'')))"

section \<open>Bokeh, waves and vortices\<close>

definition draw_bokeh_step ::
  "'g library \<Rightarrow> chimerox \<Rightarrow> int \<Rightarrow> bokeh \<Rightarrow> image \<Rightarrow> bokeh \<times> image" where
  "draw_bokeh_step lib self frame b canvas =
     (let brightness = 0.5 + (phase self + 1) * 0.4;
          movement_speed = bokeh_movement_speed self * 0.3;
          b = b\<lparr>b_x := b_x b + cos (b_movement_angle b) * movement_speed\<rparr>;
          b = b\<lparr>b_y := b_y b + sin (b_movement_angle b) * movement_speed\<rparr>;
          b = (if b_x b < - 150 then b\<lparr>b_x := of_int (width self + 100)\<rparr> else b);
          b = (if b_x b > of_int (width self + 150) then b\<lparr>b_x := - 100\<rparr> else b);
          b = (if b_y b < - 150 then b\<lparr>b_y := of_int (height self + 100)\<rparr> else b);
          b = (if b_y b > of_int (height self + 150) then b\<lparr>b_y := - 100\<rparr> else b);
          flicker_t = of_int frame * 0.008 + b_flicker_offset b;
          flicker = 0.7 + 0.3 * sin flicker_t * cos (flicker_t * 1.7);
          saturation = 0.7 + 0.3 * sin (of_int frame * 0.002 + b_hue b * 10);
          val = brightness * flicker * b_depth b;
          rgb = hsv_to_rgb lib (b_hue b) saturation val;
          col = map3 (\<lambda>c. py_int (c * 255)) rgb;
          x = py_int (b_x b);
          y = py_int (b_y b);
          sz = py_int (b_size b * (0.8 + 0.2 * flicker))
      in if - sz \<le> x \<and> x \<le> width self + sz \<and> - sz \<le> y \<and> y \<le> height self + sz
         then (b, fold (\<lambda>radius cv.
                  let alpha = (1 - of_int radius / of_int sz) * 0.6;
                      fade_color = map3 (\<lambda>c. py_int (of_int c * alpha)) col
                  in circle lib cv (x, y) radius fade_color (- 1))
                (py_range sz 0 (- max 1 (sz div 6))) canvas)
         else (b, canvas))"

fun draw_bokeh ::
  "'g library \<Rightarrow> chimerox \<Rightarrow> int \<Rightarrow> bokeh list \<Rightarrow> image \<Rightarrow> bokeh list \<times> image" where
  "draw_bokeh lib self frame [] canvas = ([], canvas)"
| "draw_bokeh lib self frame (b # bs) canvas =
     (let (b', canvas') = draw_bokeh_step lib self frame b canvas;
          (bs', canvas'') = draw_bokeh lib self frame bs canvas'
      in (b' # bs', canvas''))"

definition wave_point :: "chimerox \<Rightarrow> real \<Rightarrow> int \<Rightarrow> real \<Rightarrow> real \<Rightarrow> real \<Rightarrow> int \<Rightarrow> point" where
  "wave_point self t wave_idx wave_offset frequency amplitude x =
     (let y_base = height self div 3 + (wave_idx * height self) div (wave_count self + 1);
          wave1 = amplitude * sin (of_int x * frequency + t * 2 + wave_offset);
          diagonal_flow = (of_int x / of_int (width self)) * 150 * sin (t * 0.5 + wave_offset);
          wave2 = (amplitude * 0.4) * sin (of_int x * frequency * 1.8 + t * 1.3 + wave_offset);
          wave3 = (amplitude * 0.2) * cos (of_int x * frequency * 0.6 + t * 0.7 + wave_offset);
          y = py_int (of_int y_base + wave1 + wave2 + wave3 + diagonal_flow)
      in (x, y))"

definition draw_wave_segment ::
  "'g library \<Rightarrow> chimerox \<Rightarrow> color \<Rightarrow> int \<Rightarrow> point \<times> point \<Rightarrow> image \<Rightarrow> image" where
  "draw_wave_segment lib self wave_color thickness seg canvas =
     (case seg of ((x1, y1), (x2, y2)) \<Rightarrow>
        if 0 \<le> y1 \<and> y1 < height self \<and> 0 \<le> y2 \<and> y2 < height self
        then let glow_color = map3 (\<lambda>c. py_int (of_int c * 0.4)) wave_color;
                 canvas = line lib canvas (x1, y1) (x2, y2) glow_color (thickness + 8)
             in line lib canvas (x1, y1) (x2, y2) wave_color thickness
        else canvas)"

definition draw_wave :: "'g library \<Rightarrow> chimerox \<Rightarrow> real \<Rightarrow> int \<Rightarrow> image \<Rightarrow> image" where
  "draw_wave lib self t wave_idx canvas =
     (let wave_offset = of_int wave_idx * (pi * 2 / of_int (wave_count self));
          frequency = 0.008 + resonance self * 0.003;
          amplitude = wave_depth self * (0.8 + 0.4 * sin (t + wave_offset));
          points = map (wave_point self t wave_idx wave_offset frequency amplitude)
                     (py_range 0 (width self) (max 1 (width self div 300)));
          hue = py_fmod (base_hue self + of_int wave_idx * 0.15 + t * 0.02) 1;
          saturation = 0.8 + resonance self * 0.2;
          val = 0.8 + 0.2 * sin (t * 3 + wave_offset);
          rgb = hsv_to_rgb lib hue saturation val;
          wave_color = map3 (\<lambda>c. py_int (c * 255)) rgb;
          thickness = max 2 (py_int (6 + entropy self * 8))
      in fold (draw_wave_segment lib self wave_color thickness)
           (zip points (tl points)) canvas)"

definition draw_waves :: "'g library \<Rightarrow> chimerox \<Rightarrow> int \<Rightarrow> image \<Rightarrow> image" where
  "draw_waves lib self frame canvas =
     (let t = of_int frame * wave_speed self
      in fold (draw_wave lib self t) (py_range 0 (wave_count self) 1) canvas)"

definition draw_spiral_point ::
  "'g library \<Rightarrow> chimerox \<Rightarrow> real \<Rightarrow> vortex \<Rightarrow> real \<Rightarrow> real \<Rightarrow> int \<Rightarrow> int
     \<Rightarrow> image \<Rightarrow> image" where
  "draw_spiral_point lib self t vtx center_x center_y spiral_points spiral_idx canvas =
     (let angle_step = (of_int spiral_idx / of_int spiral_points) * pi * 4;
          radius = of_int (spiral_idx * 2 + 10);
          rotation = t * vortex_rotation_speed self + angle_step;
          x = center_x + cos rotation * radius;
          y = center_y + sin rotation * radius
      in if 0 \<le> x \<and> x < of_int (width self) \<and> 0 \<le> y \<and> y < of_int (height self)
         then let energy_hue = py_fmod (base_hue self + rotation * 0.1) 1;
                  energy_saturation = 0.8 + 0.2 * sin (t * 3 + of_int spiral_idx);
                  energy_value =
                    v_strength vtx * (1 - of_int spiral_idx / of_int spiral_points) * 0.8;
                  rgb = hsv_to_rgb lib energy_hue energy_saturation energy_value;
                  energy_color = map3 (\<lambda>c. py_int (c * 255)) rgb;
                  particle_size =
                    max 1 (py_int (3 * v_strength vtx
                                   * (1 - of_int spiral_idx / of_int spiral_points)));
                  canvas = circle lib canvas (py_int x, py_int y) particle_size energy_color (- 1)
              in if spiral_idx > 0 \<and> spiral_idx mod 3 = 0
                 then let prev_angle =
                            (of_int (spiral_idx - 3) / of_int spiral_points) * pi * 4;
                          prev_radius = of_int ((spiral_idx - 3) * 2 + 10);
                          prev_rotation = t * vortex_rotation_speed self + prev_angle;
                          prev_x = center_x + cos prev_rotation * prev_radius;
                          prev_y = center_y + sin prev_rotation * prev_radius
                      in if 0 \<le> prev_x \<and> prev_x < of_int (width self)
                            \<and> 0 \<le> prev_y \<and> prev_y < of_int (height self)
                         then let line_color = map3 (\<lambda>c. py_int (of_int c * 0.4)) energy_color
                              in line lib canvas (py_int prev_x, py_int prev_y)
                                   (py_int x, py_int y) line_color 1
                         else canvas
                 else canvas
         else canvas)"

definition draw_vortex :: "'g library \<Rightarrow> chimerox \<Rightarrow> real \<Rightarrow> vortex \<Rightarrow> image \<Rightarrow> image" where
  "draw_vortex lib self t vtx canvas =
     (let orbit_t = t * v_orbit_speed vtx;
          center_x = v_x vtx + cos orbit_t * 30;
          center_y = v_y vtx + sin orbit_t * 30;
          spiral_points = py_int (20 + of_int (threshold self) * 0.1)
      in fold (draw_spiral_point lib self t vtx center_x center_y spiral_points)
           (py_range 0 spiral_points 1) canvas)"

definition draw_vortex_field :: "'g library \<Rightarrow> chimerox \<Rightarrow> int \<Rightarrow> image \<Rightarrow> image" where
  "draw_vortex_field lib self frame canvas =
     (if vortex_intensity self < 0.3 then canvas
      else let t = of_int frame * 0.01
           in fold (draw_vortex lib self t) (vortex_centers self) canvas)"

section \<open>The distortion pass\<close>

text \<open>The local variables \<^verbatim>\<open>step\<close> and \<^verbatim>\<open>blend_factor\<close> of \<^verbatim>\<open>_apply_reality_distortion\<close>.\<close>

definition distortion_step :: "chimerox \<Rightarrow> int" where
  "distortion_step self = max 1 (py_int (4 - distortion_strength self * 8))"

definition blend_factor :: "chimerox \<Rightarrow> real" where
  "blend_factor self = min 1 (distortion_strength self * 2)"

text \<open>
  The two innermost loops: the offset is added to every entry of the block of the map
  that starts at \<open>(y, x)\<close>, cut at the border of the map.
\<close>

definition add_block :: "int \<Rightarrow> int \<Rightarrow> int \<Rightarrow> int \<Rightarrow> int \<Rightarrow> real \<Rightarrow> field \<Rightarrow> field" where
  "add_block y x step h w off m =
     (\<lambda>fy fx. if y \<le> int fy \<and> int fy < min (y + step) h
                  \<and> x \<le> int fx \<and> int fx < min (x + step) w
               then m fy fx + off else m fy fx)"

definition distort_pixel ::
  "chimerox \<Rightarrow> real \<Rightarrow> distortion_center \<Rightarrow> real \<Rightarrow> real \<Rightarrow> int \<Rightarrow> int \<Rightarrow> int
     \<Rightarrow> int \<Rightarrow> int \<Rightarrow> field \<times> field \<Rightarrow> field \<times> field" where
  "distort_pixel self t center center_x center_y step h w y x maps =
     (let dx = of_int x - center_x;
          dy = of_int y - center_y;
          distance = sqrt (dx * dx + dy * dy)
      in if distance < d_radius center \<and> distance > 1
         then let influence = (1 - distance / d_radius center) * d_strength center;
                  (offset_x, offset_y) =
                    (if distortion_type self = 0
                     then let angle = atan2 dy dx + influence * 2 + t;
                              new_dist = distance
                                * (1 + influence * 0.1 * sin (distance * 0.05 + t))
                          in (cos angle * new_dist - dx, sin angle * new_dist - dy)
                     else if distortion_type self = 1
                     then let ripple = sin (distance * 0.1 - t * 3) * influence * 10
                          in if distance > 0
                             then ((dx / distance) * ripple, (dy / distance) * ripple)
                             else (0, 0)
                     else if distortion_type self = 2
                     then let zoom_factor = 1 + influence * 0.3 * sin (t * 2)
                          in (dx * (zoom_factor - 1), dy * (zoom_factor - 1))
                     else if distortion_type self = 3
                     then (influence * 15 * sin (of_int y * 0.02 + t * 2),
                           influence * 15 * cos (of_int x * 0.02 + t * 1.7))
                     else (0, 0))
              in (add_block y x step h w offset_x (fst maps),
                  add_block y x step h w offset_y (snd maps))
         else maps)"

definition distort_center ::
  "chimerox \<Rightarrow> real \<Rightarrow> int \<Rightarrow> int \<Rightarrow> int \<Rightarrow> distortion_center
     \<Rightarrow> field \<times> field \<Rightarrow> field \<times> field" where
  "distort_center self t step h w center maps =
     (let center_x = d_x center
            + 20 * cos (t * d_rotation_speed center + d_phase_offset center);
          center_y = d_y center
            + 20 * sin (t * d_rotation_speed center + d_phase_offset center)
      in fold (\<lambda>y. fold (distort_pixel self t center center_x center_y step h w y)
                      (py_range 0 w step))
           (py_range 0 h step) maps)"

text \<open>
  The displacement maps of a frame, for a canvas of \<open>h\<close> rows and \<open>w\<close> columns: identity,
  the offsets of every centre, then \<^verbatim>\<open>np.clip\<close>. Only the entries below \<open>h\<close> and \<open>w\<close> exist
  in the arrays of the source.
\<close>

definition displacement_maps :: "chimerox \<Rightarrow> int \<Rightarrow> nat \<Rightarrow> nat \<Rightarrow> field \<times> field" where
  "displacement_maps self frame h w =
     (let t = of_int frame * distortion_speed self;
          step = distortion_step self;
          map_x = (\<lambda>y x. real x);
          map_y = (\<lambda>y x. real y);
          (map_x, map_y) =
            fold (distort_center self t step (int h) (int w)) (distortion_centers self)
              (map_x, map_y);
          map_x = (\<lambda>y x. min (of_int (int w - 1)) (max 0 (map_x y x)));
          map_y = (\<lambda>y x. min (of_int (int h - 1)) (max 0 (map_y y x)))
      in (map_x, map_y))"

definition distorted :: "'g library \<Rightarrow> chimerox \<Rightarrow> image \<Rightarrow> int \<Rightarrow> image" where
  "distorted lib self canvas frame =
     (let (map_x, map_y) = displacement_maps self frame (rows canvas) (cols canvas)
      in remap lib canvas (rows canvas) (cols canvas) map_x map_y)"

definition apply_reality_distortion ::
  "'g library \<Rightarrow> chimerox \<Rightarrow> image \<Rightarrow> int \<Rightarrow> image" where
  "apply_reality_distortion lib self canvas frame =
     (if distortion_strength self < 0.05 then canvas
      else addWeighted canvas (1 - blend_factor self)
             (distorted lib self canvas frame) (blend_factor self) 0)"

section \<open>Frames\<close>

text \<open>The tuple the canvas is filled with at the start of \<^verbatim>\<open>_draw_frame\<close>.\<close>

definition background_tint :: "chimerox \<Rightarrow> int \<Rightarrow> pixel" where
  "background_tint self frame =
     (let bg_intensity = py_int (20 + 10 * sin (of_int frame * 0.01 + phase self))
      in (word_of_int bg_intensity, word_of_int (bg_intensity div 2),
          word_of_int (bg_intensity div 3)))"

text \<open>
  The canvas as \<^verbatim>\<open>_draw_frame\<close> sets it up before any layer draws: \<^verbatim>\<open>np.zeros\<close>, then
  every pixel is set to the background tuple.
\<close>

definition cleared_canvas :: "chimerox \<Rightarrow> int \<Rightarrow> image" where
  "cleared_canvas self frame =
     (let canvas = \<lparr>rows = nat (height self), cols = nat (width self),
                    pixels = (\<lambda>r c. (0, 0, 0))\<rparr>
      in canvas\<lparr>pixels := (\<lambda>r c. background_tint self frame)\<rparr>)"

text \<open>
  The four layers of \<^verbatim>\<open>_draw_frame\<close>, drawn in order onto the canvas: bokeh, waves,
  vortex field, particles. The bokeh layer and the particle loop change the object.
\<close>

definition draw_layers ::
  "'g library \<Rightarrow> chimerox \<Rightarrow> int \<Rightarrow> image \<Rightarrow> 'g \<Rightarrow> error + image \<times> chimerox \<times> 'g" where
  "draw_layers lib self frame canvas g =
     (let (bs, canvas) = draw_bokeh lib self frame (bokeh_particles self) canvas;
          self = self\<lparr>bokeh_particles := bs\<rparr>;
          canvas = draw_waves lib self frame canvas;
          canvas = draw_vortex_field lib self frame canvas
      in case draw_particles lib self frame (particles self) canvas g of
           Inl e \<Rightarrow> Inl e
         | Inr (ps, canvas, g) \<Rightarrow> Inr (canvas, self\<lparr>particles := ps\<rparr>, g))"

text \<open>
  \<^verbatim>\<open>_draw_frame\<close> up to its last step: the canvas after the four layers, with the object
  and the global generator as the layers leave them. \<^verbatim>\<open>np.zeros\<close> raises on a negative
  dimension.
\<close>

definition composite_frame ::
  "'g library \<Rightarrow> chimerox \<Rightarrow> int \<Rightarrow> 'g \<Rightarrow> error + image \<times> chimerox \<times> 'g" where
  "composite_frame lib self frame g =
     (if height self < 0 \<or> width self < 0 then Inl ValueError
      else draw_layers lib self frame (cleared_canvas self frame) g)"

definition draw_frame ::
  "'g library \<Rightarrow> chimerox \<Rightarrow> int \<Rightarrow> 'g \<Rightarrow> error + image \<times> chimerox \<times> 'g" where
  "draw_frame lib self frame g =
     (case composite_frame lib self frame g of
        Inl e \<Rightarrow> Inl e
      | Inr (canvas, self, g) \<Rightarrow>
          Inr (apply_reality_distortion lib self canvas frame, self, g))"

text \<open>
  The frame loop of \<^verbatim>\<open>generate\<close>. The result is the list of the frames written to the video
  sink, in order, and the exception that ended the loop, if one did. The choice of the
  codec and the metadata do not touch the frames and are left out.
\<close>

fun generate_frames ::
  "'g library \<Rightarrow> chimerox \<Rightarrow> int list \<Rightarrow> 'g \<Rightarrow> image list \<times> error option" where
  "generate_frames lib self [] g = ([], None)"
| "generate_frames lib self (frame # rest) g =
     (case draw_frame lib self frame g of
        Inl e \<Rightarrow> ([], Some e)
      | Inr (canvas, self', g') \<Rightarrow>
          (let (written, r) = generate_frames lib self' rest g'
           in (canvas # written, r)))"

definition generate :: "'g library \<Rightarrow> chimerox \<Rightarrow> 'g \<Rightarrow> image list \<times> error option" where
  "generate lib self g = generate_frames lib self (py_range 0 (total_frames self) 1) g"

text \<open>
  A run: the object is constructed from the configuration, then \<^verbatim>\<open>generate\<close> is called on
  it, as \<^verbatim>\<open>main\<close> does. \<open>g0\<close> is the state of the global generator before the run.
\<close>

definition run :: "'g library \<Rightarrow> config \<Rightarrow> 'g \<Rightarrow> image list \<times> error option" where
  "run lib cfg g0 = (let (self, g) = chimerox_init lib cfg g0 in generate lib self g)"

section \<open>A library instance for concrete evaluation\<close>

text \<open>
  A small instance of the library, used where a statement is evaluated on concrete data:
  a generator that counts (its state is a number, a draw is the state modulo 16 scaled
  into \<open>[0, 1)\<close>, and the state advances by 7), a grey \<open>hsv_to_rgb\<close>, and drawing
  functions that leave the pixels as they are.
\<close>

definition test_library :: "nat library" where
  "test_library =
     \<lparr>random_seed = (\<lambda>s. nat \<bar>s\<bar>),
      random_random = (\<lambda>g. (real (g mod 16) / 16, g + 7)),
      hsv_to_rgb = (\<lambda>h s v. (v, v, v)),
      cv_circle = (\<lambda>img c r col t. pixels img),
      cv_line = (\<lambda>img p q col t. pixels img),
      cv_remap = (\<lambda>img map_x map_y. pixels img)\<rparr>"

text \<open>The configuration of the end-to-end scenario of the specification.\<close>

definition scenario :: config where
  "scenario =
     \<lparr>iota = 12345, omicron = 0, phase = 0, threshold = 500, resonance = 2,
      entropy = 1 / 2, width = 640, height = 480, duration = 1, fps = 24\<rparr>"

text \<open>A particle at rest in the middle of the scenario's canvas, and a configuration
  without forces (no resonance, no entropy, no density), for concrete evaluation.\<close>

definition still :: config where
  "still =
     \<lparr>iota = 0, omicron = 0, phase = 0, threshold = 0, resonance = 0,
      entropy = 0, width = 640, height = 480, duration = 1, fps = 24\<rparr>"

definition resting :: particle where
  "resting =
     \<lparr>p_x = 320, p_y = 240, p_vx = 0, p_vy = 0, p_size = 5, p_age = 0, p_life = 100,
      p_orbit_radius = 0, p_orbit_speed = 0, p_color_offset = 0\<rparr>"

text \<open>The shape of a canvas: rows and columns.\<close>

definition shape :: "image \<Rightarrow> nat \<times> nat" where
  "shape img = (rows img, cols img)"

text \<open>A small canvas for concrete evaluation.\<close>

definition two_by_two :: image where
  "two_by_two = \<lparr>rows = 2, cols = 2, pixels = (\<lambda>r c. (1, 2, 3))\<rparr>"

text \<open>The draws of \<^verbatim>\<open>random.random()\<close> lie in \<open>[0, 1)\<close>.\<close>

definition unit_draws :: "'g library \<Rightarrow> bool" where
  "unit_draws lib = (\<forall>g. 0 \<le> fst (random_random lib g) \<and> fst (random_random lib g) < 1)"

section \<open>Basic facts\<close>

lemma pow2_powr: "pow2 k = 2 powr (of_int k)"
  by (cases "0 \<le> k") (simp_all add: pow2_def powr_real_of_int inverse_eq_divide)

lemma pow2_pos: "0 < pow2 k"
  by (simp add: pow2_powr)

text \<open>Rounding a number whose binary exponent is known.\<close>

lemma double_eval:
  assumes "pow2 k \<le> \<bar>v\<bar>" "\<bar>v\<bar> < pow2 (k + 1)"
  shows "double v = of_int (nearest_even (v / pow2 (k - 52))) * pow2 (k - 52)"
proof -
  have pos: "0 < \<bar>v\<bar>" using assms(1) pow2_pos [of k] by linarith
  have "\<lfloor>log 2 \<bar>v\<bar>\<rfloor> = k"
    using assms pos by (simp add: floor_log_eq_powr_iff pow2_powr)
  then show ?thesis using pos by (simp add: double_def Let_def)
qed





text \<open>The doubles of the literals and of the arguments used below.\<close>

lemma double_literals:
  "double 0.15 = 5404319552844595 / 2 ^ 55"
  "double 0.3 = 5404319552844595 / 2 ^ 54"
  "double 0.7 = 6305039478318694 / 2 ^ 53"
  "double (1 / 2) = 1 / 2"
  "double 500 = 500"
  "double 400 = 400"
proof -
  show "double 0.15 = 5404319552844595 / 2 ^ 55"
    by (subst double_eval [where k = "- 3"]) (simp_all add: pow2_def nearest_even_def)
  show "double 0.3 = 5404319552844595 / 2 ^ 54"
    by (subst double_eval [where k = "- 2"]) (simp_all add: pow2_def nearest_even_def)
  show "double 0.7 = 6305039478318694 / 2 ^ 53"
    by (subst double_eval [where k = "- 1"]) (simp_all add: pow2_def nearest_even_def)
  show "double (1 / 2) = 1 / 2"
    by (subst double_eval [where k = "- 1"]) (simp_all add: pow2_def nearest_even_def)
  show "double 500 = 500"
    by (subst double_eval [where k = 8]) (simp_all add: pow2_def nearest_even_def)
  show "double 400 = 400"
    by (subst double_eval [where k = 8]) (simp_all add: pow2_def nearest_even_def)
qed

text \<open>\<open>0.3 + 0.5 * 0.7\<close> in floats is \<open>0.6499999999999999\<close>: the sum is a tie and goes to even.\<close>

lemma float_factor_half:
  "fadd (double 0.3) (fmul (double (1 / 2)) (double 0.7)) = 5854679515581644 / 2 ^ 53"
proof -
  have m: "fmul (1 / 2) (6305039478318694 / 2 ^ 53) = 6305039478318694 / 2 ^ 54"
    unfolding fmul_def
    by (subst double_eval [where k = "- 2"]) (simp_all add: pow2_def nearest_even_def)
  have a: "fadd (5404319552844595 / 2 ^ 54) (6305039478318694 / 2 ^ 54)
      = 5854679515581644 / 2 ^ 53"
    unfolding fadd_def
    by (subst double_eval [where k = "- 1"]) (simp_all add: pow2_def nearest_even_def)
  show ?thesis by (simp only: double_literals m a)
qed

text \<open>\<open>500 * 0.15 * 0.6499999999999999\<close> is \<open>48.74999999999999\<close>.\<close>

lemma float_product_500:
  "fmul (fmul (double 500) (double 0.15))
     (fadd (double 0.3) (fmul (double (1 / 2)) (double 0.7))) = 6860952557322239 / 2 ^ 47"
proof -
  have m1: "fmul 500 (5404319552844595 / 2 ^ 55) = 75"
    unfolding fmul_def
    by (subst double_eval [where k = 6]) (simp_all add: pow2_def nearest_even_def)
  have m3: "fmul 75 (5854679515581644 / 2 ^ 53) = 6860952557322239 / 2 ^ 47"
    unfolding fmul_def
    by (subst double_eval [where k = 5]) (simp_all add: pow2_def nearest_even_def)
  show ?thesis
    unfolding float_factor_half by (simp only: double_literals m1 m3)
qed

text \<open>
  The rounding shows on ordinary inputs: \<open>400 * 0.15 * 0.6499999999999999\<close> is
  \<open>38.99999999999999\<close>, which truncates to 38, where the exact product is 39.
\<close>

lemma float_product_400:
  "fmul (fmul (double 400) (double 0.15))
     (fadd (double 0.3) (fmul (double (1 / 2)) (double 0.7))) = 5488762045857791 / 2 ^ 47"
proof -
  have m1: "fmul 400 (5404319552844595 / 2 ^ 55) = 60"
    unfolding fmul_def
    by (subst double_eval [where k = 5]) (simp_all add: pow2_def nearest_even_def)
  have m3: "fmul 60 (5854679515581644 / 2 ^ 53) = 5488762045857791 / 2 ^ 47"
    unfolding fmul_def
    by (subst double_eval [where k = 5]) (simp_all add: pow2_def nearest_even_def)
  show ?thesis
    unfolding float_factor_half by (simp only: double_literals m1 m3)
qed

lemma py_range_upto: "py_range 0 n 1 = map int [0..<nat n]"
  by (simp add: py_range_def)


lemmas init_defs =
  chimerox_init_def unassigned_def Let_def split_beta config.defs chimerox.defs

lemma init_num_particles:
  "num_particles (fst (chimerox_init lib cfg g)) =
     particle_total cfg"
  by (simp add: init_defs)

lemma init_particles_arg:
  "particles (fst (chimerox_init lib cfg g)) =
     fst (init_particles lib
       ((unassigned cfg)\<lparr>total_frames := duration cfg * fps cfg,
          num_particles := particle_total cfg\<rparr>)
       (random_seed lib (iota cfg)))"
  by (simp add: init_defs)

lemma fold_init_particles:
  "fst (fold (init_particles_step lib self) js s) =
     fst s @ map (\<lambda>i. fst (new_particle lib self
                     (random_seed lib ((iota self + i * omicron self) mod 10000)))) js"
  by (induction js arbitrary: s) (simp_all add: init_particles_step_def Let_def split_beta)

lemma init_particles_map:
  "fst (init_particles lib self g) =
     map (\<lambda>i. fst (new_particle lib self
               (random_seed lib ((iota self + i * omicron self) mod 10000))))
       (map int [0..<nat (num_particles self)])"
  by (simp add: init_particles_def fold_init_particles py_range_upto)

lemma init_particles_length:
  "length (fst (init_particles lib self g)) = nat (num_particles self)"
  by (simp add: init_particles_map)

lemma init_cfg_fields:
  "width ((unassigned cfg)\<lparr>total_frames := a, num_particles := b\<rparr>) = width cfg"
  "height ((unassigned cfg)\<lparr>total_frames := a, num_particles := b\<rparr>) = height cfg"
  "iota ((unassigned cfg)\<lparr>total_frames := a, num_particles := b\<rparr>) = iota cfg"
  "omicron ((unassigned cfg)\<lparr>total_frames := a, num_particles := b\<rparr>) = omicron cfg"
  "entropy ((unassigned cfg)\<lparr>total_frames := a, num_particles := b\<rparr>) = entropy cfg"
  "resonance ((unassigned cfg)\<lparr>total_frames := a, num_particles := b\<rparr>) = resonance cfg"
  "num_particles ((unassigned cfg)\<lparr>total_frames := a, num_particles := b\<rparr>) = b"
  by (simp_all add: unassigned_def config.defs chimerox.defs)

lemma init_particles_count:
  "length (particles (fst (chimerox_init lib cfg g))) =
     nat (num_particles (fst (chimerox_init lib cfg g)))"
  by (simp add: init_particles_arg init_particles_length init_num_particles init_cfg_fields)

lemma scenario_count: "particle_total scenario = 48"
proof -
  have t: "of_int (threshold scenario) = (500 :: real)" "entropy scenario = 1 / 2"
    by (simp_all add: scenario_def)
  have "py_int (6860952557322239 / 2 ^ 47) = 48" by (simp add: py_int_def)
  then show ?thesis by (simp only: t float_product_500)
qed

lemma scenario_length:
  "length (particles (fst (chimerox_init lib scenario g))) = 48"
  by (simp only: init_particles_count init_num_particles scenario_count nat_numeral)



lemma test_library_seed: "random_seed test_library s = nat \<bar>s\<bar>"
  by (simp add: test_library_def)

lemma test_library_draw:
  "random_random test_library g = (real (g mod 16) / 16, g + 7)"
  by (simp add: test_library_def)

lemma update_particle_move_rng:
  "snd (update_particle_move lib self p frame g) = snd (random_random lib g)"
  by (simp add: update_particle_move_def Let_def split_beta)

lemma update_particle_move_keeps:
  "p_age (fst (update_particle_move lib self p frame g)) = p_age p"
  "p_life (fst (update_particle_move lib self p frame g)) = p_life p"
  by (simp_all add: update_particle_move_def Let_def split_beta)

lemma wrap_Inr:
  "wrap ph extent c = Inr v \<Longrightarrow>
     v = (if c < 0 \<or> of_int extent < c then py_fmod (c + ph * 100) (of_int extent) else c)"
  by (auto simp: wrap_def split: if_splits)

lemma update_particle_wrap_Inr:
  assumes "update_particle_wrap self m = Inr w"
  shows "w = m\<lparr>p_x := (if p_x m < 0 \<or> of_int (width self) < p_x m
                     then py_fmod (p_x m + phase self * 100) (of_int (width self)) else p_x m),
               p_y := (if p_y m < 0 \<or> of_int (height self) < p_y m
                     then py_fmod (p_y m + phase self * 100) (of_int (height self)) else p_y m)\<rparr>"
  using assms
  by (auto simp: update_particle_wrap_def split: sum.splits dest!: wrap_Inr)

lemma update_particle_Inr:
  assumes "update_particle lib self p frame g = Inr (p', g')"
  shows "\<exists>w. update_particle_wrap self (fst (update_particle_move lib self p frame g)) = Inr w
           \<and> (p', g') = update_particle_age lib self w (snd (random_random lib g))"
  using assms
  by (auto simp: update_particle_def split_beta update_particle_move_rng split: sum.splits)

lemma wrap_total: "extent \<noteq> 0 \<Longrightarrow> \<exists>v. wrap ph extent c = Inr v"
  by (simp add: wrap_def)

lemma update_particle_total:
  assumes "width self \<noteq> 0" "height self \<noteq> 0"
  shows "\<exists>p' g'. update_particle lib self p frame g = Inr (p', g')"
proof -
  obtain m g1 where m: "update_particle_move lib self p frame g = (m, g1)"
    by (cases "update_particle_move lib self p frame g")
  obtain x where x: "wrap (phase self) (width self) (p_x m) = Inr x"
    using wrap_total [OF assms(1)] by blast
  obtain y where y: "wrap (phase self) (height self) (p_y m) = Inr y"
    using wrap_total [OF assms(2)] by blast
  show ?thesis
    by (cases "update_particle_age lib self (m\<lparr>p_x := x, p_y := y\<rparr>) g1")
       (simp add: update_particle_def m update_particle_wrap_def x y)
qed

lemma update_particle_age_respawn:
  assumes "p_life w < of_int (p_age w + 1)"
  shows "update_particle_age lib self w g1 =
     (let (ux, g2) = random_random lib g1;
          (uy, g3) = random_random lib g2;
          (ul, g4) = random_random lib g3
      in (w\<lparr>p_age := 0, p_x := of_int (width self) * ux, p_y := of_int (height self) * uy,
            p_life := 50 + 150 * ul\<rparr>, g4))"
  using assms by (simp add: update_particle_age_def uniform_def Let_def split_beta)

lemma update_particle_age_keep:
  assumes "\<not> p_life w < of_int (p_age w + 1)"
  shows "update_particle_age lib self w g1 = (w\<lparr>p_age := p_age w + 1\<rparr>, g1)"
  using assms by (simp add: update_particle_age_def Let_def)

lemma init_config:
  "iota (fst (chimerox_init lib cfg g)) = iota cfg"
  "omicron (fst (chimerox_init lib cfg g)) = omicron cfg"
  "phase (fst (chimerox_init lib cfg g)) = phase cfg"
  "threshold (fst (chimerox_init lib cfg g)) = threshold cfg"
  "resonance (fst (chimerox_init lib cfg g)) = resonance cfg"
  "entropy (fst (chimerox_init lib cfg g)) = entropy cfg"
  "width (fst (chimerox_init lib cfg g)) = width cfg"
  "height (fst (chimerox_init lib cfg g)) = height cfg"
  "duration (fst (chimerox_init lib cfg g)) = duration cfg"
  "fps (fst (chimerox_init lib cfg g)) = fps cfg"
  by (simp_all add: init_defs)

lemma test_library_unit_draws: "unit_draws test_library"
  by (simp add: unit_draws_def test_library_draw)

lemma still_update:
  "update_particle test_library (fst (chimerox_init test_library still 0))
     (resting\<lparr>p_age := 1000\<rparr>) 0 5
   = Inr (resting\<lparr>p_x := 480, p_y := 90, p_life := 575 / 4\<rparr>, 33)"
  by (simp add: update_particle_def update_particle_move_def update_particle_wrap_def wrap_def
      update_particle_age_def uniform_def init_config test_library_draw still_def resting_def)

lemma py_fmod_shift: "w \<noteq> 0 \<Longrightarrow> py_fmod (w + c) w = py_fmod c w"
proof -
  assume w: "w \<noteq> 0"
  have "(w + c) / w = 1 + c / w" using w by (simp add: add_divide_distrib)
  then have "\<lfloor>(w + c) / w\<rfloor> = 1 + \<lfloor>c / w\<rfloor>" by simp
  then show ?thesis by (simp add: py_fmod_def algebra_simps)
qed

lemma still_wrap:
  "update_particle test_library (fst (chimerox_init test_library still 0))
     (resting\<lparr>p_x := 645\<rparr>) 0 5
   = Inr (resting\<lparr>p_x := 5, p_age := 1\<rparr>, 12)"
  by (simp add: update_particle_def update_particle_move_def update_particle_wrap_def wrap_def
      update_particle_age_def uniform_def init_config test_library_draw still_def resting_def
      py_fmod_def)

lemma update_particle_life:
  assumes "update_particle lib self p frame g = Inr (p', g')"
  shows "if p_life p < of_int (p_age p + 1)
         then \<exists>h. p_life p' = 50 + 150 * fst (random_random lib h)
         else p_life p' = p_life p"
proof -
  obtain w where w: "update_particle_wrap self (fst (update_particle_move lib self p frame g)) = Inr w"
    and r: "(p', g') = update_particle_age lib self w (snd (random_random lib g))"
    using update_particle_Inr [OF assms] by blast
  have keep: "p_age w = p_age p" "p_life w = p_life p"
    using update_particle_wrap_Inr [OF w] by (simp_all add: update_particle_move_keeps)
  show ?thesis
  proof (cases "p_life p < of_int (p_age p + 1)")
    case True
    then have dead: "p_life w < of_int (p_age w + 1)" using keep by simp
    have "\<exists>h. p_life p' = 50 + 150 * fst (random_random lib h)"
      using r unfolding update_particle_age_respawn [OF dead]
      by (auto simp: split_beta Let_def)
    with True show ?thesis by simp
  next
    case False
    then have nd: "\<not> p_life w < of_int (p_age w + 1)" using keep by simp
    have "p' = w\<lparr>p_age := p_age w + 1\<rparr>"
      using r by (simp add: update_particle_age_keep [OF nd])
    with False keep show ?thesis by simp
  qed
qed

lemma unit_drawsD:
  "unit_draws lib \<Longrightarrow> 0 \<le> fst (random_random lib h) \<and> fst (random_random lib h) < 1"
  by (simp add: unit_draws_def)

lemma cv_round_of_int: "cv_round (of_int k) = k"
  by (simp add: cv_round_def)

lemma saturate_u8_unat: "saturate_u8 (real (unat (a :: 8 word))) = a"
proof -
  have r: "real (unat a) = of_int (uint a)" by simp
  have "uint a < 2 ^ 8" using uint_lt2p [of a] by simp
  then have "max 0 (min 255 (uint a)) = uint a" by simp
  then show ?thesis unfolding r saturate_u8_def cv_round_of_int by simp
qed

lemma weighted_second: "weighted 0 1 0 a b = b"
  by (simp only: weighted_def mult_zero_right mult_1_right add_0 add_0_right saturate_u8_unat)

lemma addWeighted_second:
  "rows src1 = rows src2 \<Longrightarrow> cols src1 = cols src2 \<Longrightarrow> addWeighted src1 0 src2 1 0 = src2"
  by (simp add: addWeighted_def weighted_second split_beta)

lemma distorted_shape:
  "rows (distorted lib self canvas frame) = rows canvas"
  "cols (distorted lib self canvas frame) = cols canvas"
  by (simp_all add: distorted_def remap_def split_beta)

lemma composite_frame_self:
  assumes "composite_frame lib self frame g = Inr (canvas, self', g')"
  shows "\<exists>bs ps. self' = self\<lparr>bokeh_particles := bs, particles := ps\<rparr>"
  using assms
  by (auto simp: composite_frame_def draw_layers_def Let_def split_beta
      split: if_splits sum.splits)

lemma composite_frame_strength:
  assumes "composite_frame lib self frame g = Inr (canvas, self', g')"
  shows "distortion_strength self' = distortion_strength self"
  using composite_frame_self [OF assms] by auto

lemma init_distortion_strength:
  "distortion_strength (fst (chimerox_init lib cfg g)) = entropy cfg * resonance cfg * 0.3"
  by (simp add: init_defs)

lemma fold_init_distortion_centers:
  "(\<forall>c \<in> set (fst s). \<exists>h. d_strength c
        = (0.5 + fst (random_random lib h)) * distortion_strength self) \<Longrightarrow>
   length (fst (fold (init_distortion_centers_step lib self) js s)) = length (fst s) + length js
   \<and> (\<forall>c \<in> set (fst (fold (init_distortion_centers_step lib self) js s)).
         \<exists>h. d_strength c = (0.5 + fst (random_random lib h)) * distortion_strength self)"
proof (induction js arbitrary: s)
  case Nil
  then show ?case by simp
next
  case (Cons j js)
  let ?s = "init_distortion_centers_step lib self j s"
  have "\<exists>c h. fst ?s = fst s @ [c]
      \<and> d_strength c = (0.5 + fst (random_random lib h)) * distortion_strength self"
    by (auto simp: init_distortion_centers_step_def uniform_def Let_def split_beta)
  then obtain c h where c: "fst ?s = fst s @ [c]"
    and d: "d_strength c = (0.5 + fst (random_random lib h)) * distortion_strength self"
    by blast
  have inv: "\<forall>c \<in> set (fst ?s). \<exists>h. d_strength c
        = (0.5 + fst (random_random lib h)) * distortion_strength self"
    using Cons.prems d unfolding c by auto
  show ?case using Cons.IH [OF inv] by (simp add: c)
qed

lemma init_distortion_centers_empty:
  "distortion_strength self < 0.1 \<Longrightarrow> fst (init_distortion_centers lib self g) = []"
  by (simp add: init_distortion_centers_def)

lemma init_distortion_centers_full:
  assumes "\<not> distortion_strength self < 0.1"
  shows "length (fst (init_distortion_centers lib self g)) = nat (py_int (1 + entropy self * 2))
       \<and> (\<forall>c \<in> set (fst (init_distortion_centers lib self g)).
            \<exists>h. d_strength c = (0.5 + fst (random_random lib h)) * distortion_strength self)"
  using assms fold_init_distortion_centers [of "([], g)" lib self]
  by (simp add: init_distortion_centers_def Let_def py_range_upto)

lemma init_distortion_centers_arg:
  "\<exists>self0 g0. distortion_centers (fst (chimerox_init lib cfg g))
        = fst (init_distortion_centers lib self0 g0)
      \<and> distortion_strength self0 = entropy cfg * resonance cfg * 0.3
      \<and> entropy self0 = entropy cfg"
  apply (simp add: chimerox_init_def Let_def split_beta)
  apply (intro exI conjI)
    apply (rule refl)
   apply (simp_all add: unassigned_def config.defs chimerox.defs)
  done

lemma shape_LetI: "(\<And>v. shape (f v) = s) \<Longrightarrow> shape (Let a f) = s"
  by simp

lemma shape_Let_imageI:
  "shape a = s \<Longrightarrow> (\<And>v. shape v = s \<Longrightarrow> shape (f v) = s) \<Longrightarrow> shape (Let a f) = s"
  by simp

lemma shape_ifI: "shape a = s \<Longrightarrow> shape b = s \<Longrightarrow> shape (if c then a else b) = s"
  by simp

lemma shape_case_prodI: "(\<And>a b. shape (f a b) = s) \<Longrightarrow> shape (case_prod f p) = s"
  by (cases p) simp

lemma shape_circleI: "shape img = s \<Longrightarrow> shape (circle lib img c r col t) = s"
  by (simp add: shape_def circle_def)

lemma shape_lineI: "shape img = s \<Longrightarrow> shape (line lib img p q col t) = s"
  by (simp add: shape_def line_def)

lemma shape_foldI:
  "(\<And>a c. shape c = s \<Longrightarrow> shape (f a c) = s) \<Longrightarrow> shape c0 = s \<Longrightarrow> shape (fold f xs c0) = s"
  by (induction xs arbitrary: c0) simp_all

lemma shape_snd_LetI: "(\<And>v. shape (snd (f v)) = s) \<Longrightarrow> shape (snd (Let a f)) = s"
  by simp

lemma shape_snd_ifI:
  "shape (snd a) = s \<Longrightarrow> shape (snd b) = s \<Longrightarrow> shape (snd (if c then a else b)) = s"
  by simp

lemma shape_snd_pairI: "shape c = s \<Longrightarrow> shape (snd (a, c)) = s"
  by simp

lemmas shape_intros =
  shape_Let_imageI shape_LetI shape_ifI shape_case_prodI shape_circleI shape_lineI shape_foldI
  shape_snd_LetI shape_snd_ifI shape_snd_pairI

lemma shape_draw_trail:
  "shape canvas = s \<Longrightarrow> shape (draw_trail lib self p col x y sz n i canvas) = s"
  unfolding draw_trail_def by (intro shape_intros; assumption)

lemma shape_draw_particle:
  "shape canvas = s \<Longrightarrow> shape (draw_particle lib self frame p canvas) = s"
  unfolding draw_particle_def by (intro shape_intros shape_draw_trail; assumption)

lemma shape_draw_bokeh_step:
  "shape canvas = s \<Longrightarrow> shape (snd (draw_bokeh_step lib self frame b canvas)) = s"
  unfolding draw_bokeh_step_def by (intro shape_intros; assumption)

lemma shape_draw_bokeh:
  "shape canvas = s \<Longrightarrow> shape (snd (draw_bokeh lib self frame bs canvas)) = s"
  by (induction bs arbitrary: canvas) (simp_all add: split_beta shape_draw_bokeh_step)

lemma shape_draw_wave_segment:
  "shape canvas = s \<Longrightarrow> shape (draw_wave_segment lib self col t seg canvas) = s"
  unfolding draw_wave_segment_def by (intro shape_intros; assumption)

lemma shape_draw_wave:
  "shape canvas = s \<Longrightarrow> shape (draw_wave lib self t i canvas) = s"
  unfolding draw_wave_def by (intro shape_intros shape_draw_wave_segment; assumption)

lemma shape_draw_waves:
  "shape canvas = s \<Longrightarrow> shape (draw_waves lib self frame canvas) = s"
  unfolding draw_waves_def by (intro shape_intros shape_draw_wave; assumption)

lemma shape_draw_spiral_point:
  "shape canvas = s \<Longrightarrow> shape (draw_spiral_point lib self t vtx cx cy n i canvas) = s"
  unfolding draw_spiral_point_def by (intro shape_intros; assumption)

lemma shape_draw_vortex:
  "shape canvas = s \<Longrightarrow> shape (draw_vortex lib self t vtx canvas) = s"
  unfolding draw_vortex_def by (intro shape_intros shape_draw_spiral_point; assumption)

lemma shape_draw_vortex_field:
  "shape canvas = s \<Longrightarrow> shape (draw_vortex_field lib self frame canvas) = s"
  unfolding draw_vortex_field_def by (intro shape_intros shape_draw_vortex; assumption)

lemma shape_apply_reality_distortion:
  "shape (apply_reality_distortion lib self canvas frame) = shape canvas"
  by (simp add: apply_reality_distortion_def addWeighted_def shape_def)

lemma draw_particles_total:
  assumes "width self \<noteq> 0" "height self \<noteq> 0"
  shows "\<exists>ps' canvas' g'. draw_particles lib self frame ps canvas g = Inr (ps', canvas', g')
           \<and> shape canvas' = shape canvas"
proof (induction ps arbitrary: canvas g)
  case Nil
  then show ?case by simp
next
  case (Cons p ps)
  obtain p' g1 where u: "update_particle lib self p frame g = Inr (p', g1)"
    using update_particle_total [OF assms, of lib p frame g] by blast
  obtain ps' canvas' g' where
    r: "draw_particles lib self frame ps (draw_particle lib self frame p' canvas) g1
          = Inr (ps', canvas', g')"
    and s: "shape canvas' = shape (draw_particle lib self frame p' canvas)"
    using Cons.IH by blast
  show ?case by (simp add: u r s shape_draw_particle)
qed

lemma composite_frame_total:
  assumes "0 < width self" "0 < height self"
  shows "\<exists>canvas self' g'. composite_frame lib self frame g = Inr (canvas, self', g')
           \<and> shape canvas = (nat (height self), nat (width self))
           \<and> width self' = width self \<and> height self' = height self"
proof -
  define c0 where "c0 = cleared_canvas self frame"
  define bs where "bs = fst (draw_bokeh lib self frame (bokeh_particles self) c0)"
  define c1 where "c1 = snd (draw_bokeh lib self frame (bokeh_particles self) c0)"
  define self1 where "self1 = self\<lparr>bokeh_particles := bs\<rparr>"
  define c3 where "c3 = draw_vortex_field lib self1 frame (draw_waves lib self1 frame c1)"
  have s0: "shape c0 = (nat (height self), nat (width self))"
    by (simp add: shape_def c0_def cleared_canvas_def)
  have s3: "shape c3 = (nat (height self), nat (width self))"
    unfolding c3_def c1_def
    by (intro shape_draw_vortex_field shape_draw_waves shape_draw_bokeh s0)
  have nz: "width self1 \<noteq> 0" "height self1 \<noteq> 0"
    using assms by (simp_all add: self1_def)
  obtain ps' canvas' g' where
    r: "draw_particles lib self1 frame (particles self) c3 g = Inr (ps', canvas', g')"
    and s: "shape canvas' = shape c3"
    using draw_particles_total [OF nz, of lib frame "particles self" c3 g] by blast
  have "composite_frame lib self frame g = Inr (canvas', self1\<lparr>particles := ps'\<rparr>, g')"
    using assms r
    by (simp add: composite_frame_def draw_layers_def Let_def split_beta
        c0_def bs_def c1_def self1_def c3_def)
  then show ?thesis
    using s s3 by (simp add: self1_def)
qed

lemma draw_frame_total:
  assumes "0 < width self" "0 < height self"
  shows "\<exists>canvas self' g'. draw_frame lib self frame g = Inr (canvas, self', g')
           \<and> shape canvas = (nat (height self), nat (width self))
           \<and> width self' = width self \<and> height self' = height self"
proof -
  obtain canvas self' g' where
    c: "composite_frame lib self frame g = Inr (canvas, self', g')"
    and s: "shape canvas = (nat (height self), nat (width self))"
    and w: "width self' = width self" "height self' = height self"
    using composite_frame_total [OF assms, of lib frame g] by blast
  show ?thesis
    by (simp add: draw_frame_def c s w shape_apply_reality_distortion)
qed

lemma generate_frames_total:
  assumes "0 < width self" "0 < height self"
  shows "\<exists>written. generate_frames lib self frames g = (written, None)
           \<and> length written = length frames
           \<and> list_all (\<lambda>f. shape f = (nat (height self), nat (width self))) written"
  using assms
proof (induction frames arbitrary: self g)
  case Nil
  then show ?case by simp
next
  case (Cons frame rest)
  obtain canvas self' g' where
    d: "draw_frame lib self frame g = Inr (canvas, self', g')"
    and s: "shape canvas = (nat (height self), nat (width self))"
    and w: "width self' = width self" "height self' = height self"
    using draw_frame_total [OF Cons.prems, of lib frame g] by blast
  have pos: "0 < width self'" "0 < height self'"
    using Cons.prems w by simp_all
  obtain written where
    r: "generate_frames lib self' rest g' = (written, None)"
    and l: "length written = length rest"
    and a: "list_all (\<lambda>f. shape f = (nat (height self'), nat (width self'))) written"
    using Cons.IH [OF pos, of g'] by blast
  show ?case
    using a by (simp add: d r l s w)
qed

lemma init_total_frames:
  "total_frames (fst (chimerox_init lib cfg g)) = duration cfg * fps cfg"
  by (simp add: init_defs)

lemma run_total:
  assumes "0 < width cfg" "0 < height cfg"
  shows "\<exists>written. run lib cfg g = (written, None)
           \<and> length written = nat (duration cfg * fps cfg)
           \<and> list_all (\<lambda>f. shape f = (nat (height cfg), nat (width cfg))) written"
proof -
  let ?S = "fst (chimerox_init lib cfg g)"
  have pos: "0 < width ?S" "0 < height ?S"
    using assms by (simp_all add: init_config)
  from generate_frames_total [OF pos, of lib "py_range 0 (total_frames ?S) 1"
      "snd (chimerox_init lib cfg g)"]
  show ?thesis
    by (simp add: run_def split_beta generate_def init_config init_total_frames py_range_upto)
qed

lemma init_ignores_generator: "chimerox_init lib cfg g1 = chimerox_init lib cfg g2"
  by (simp add: chimerox_init_def)

lemma draw_frame_layers:
  assumes "0 \<le> width self" "0 \<le> height self"
      and "draw_frame lib self frame g = Inr (out, self', g')"
  shows "\<exists>canvas. draw_layers lib self frame (cleared_canvas self frame) g
             = Inr (canvas, self', g')
           \<and> out = apply_reality_distortion lib self' canvas frame"
  using assms
  by (auto simp: draw_frame_def composite_frame_def split: sum.splits)

lemma run_first_frame:
  assumes "0 < width cfg" "0 < height cfg" "0 < duration cfg * fps cfg"
  shows "\<exists>canvas self' g'.
           draw_layers lib (fst (chimerox_init lib cfg g)) 0
               (cleared_canvas (fst (chimerox_init lib cfg g)) 0)
               (snd (chimerox_init lib cfg g))
             = Inr (canvas, self', g')
           \<and> fst (run lib cfg g) ! 0 = apply_reality_distortion lib self' canvas 0"
proof -
  let ?S = "fst (chimerox_init lib cfg g)"
  let ?g = "snd (chimerox_init lib cfg g)"
  have pos: "0 < width ?S" "0 < height ?S"
    using assms by (simp_all add: init_config)
  obtain out self' g' where d: "draw_frame lib ?S 0 ?g = Inr (out, self', g')"
    using draw_frame_total [OF pos, of lib 0 ?g] by blast
  obtain canvas where
    l: "draw_layers lib ?S 0 (cleared_canvas ?S 0) ?g = Inr (canvas, self', g')"
    and o: "out = apply_reality_distortion lib self' canvas 0"
    using draw_frame_layers [OF _ _ d] pos by force
  have "[0..<nat (duration cfg * fps cfg)] = 0 # [1..<nat (duration cfg * fps cfg)]"
    using assms(3) by (simp add: upt_conv_Cons)
  then have "py_range 0 (total_frames ?S) 1
      = 0 # map int [1..<nat (duration cfg * fps cfg)]"
    by (simp add: py_range_upto init_total_frames)
  then have "fst (run lib cfg g) ! 0 = out"
    by (simp add: run_def split_beta generate_def d)
  then show ?thesis using l o by blast
qed


text \<open>Under the test library no layer changes the canvas.\<close>

lemma same_Let_imageI:
  "a = c \<Longrightarrow> (\<And>v. v = c \<Longrightarrow> f v = c) \<Longrightarrow> Let (a :: image) f = (c :: image)"
  by simp

lemma same_LetI: "(\<And>v. f v = c) \<Longrightarrow> Let a f = (c :: image)"
  by simp

lemma same_ifI: "a = c \<Longrightarrow> b = c \<Longrightarrow> (if x then a else b) = (c :: image)"
  by simp

lemma same_case_prodI: "(\<And>a b. f a b = c) \<Longrightarrow> case_prod f p = (c :: image)"
  by (cases p) simp

lemma same_circleI: "img = c \<Longrightarrow> circle test_library img q r col t = c"
  by (simp add: circle_def test_library_def)

lemma same_lineI: "img = c \<Longrightarrow> line test_library img p q col t = c"
  by (simp add: line_def test_library_def)

lemma same_foldI:
  "(\<And>a v. v = c \<Longrightarrow> f a v = c) \<Longrightarrow> v0 = c \<Longrightarrow> fold f xs v0 = (c :: image)"
  by (induction xs arbitrary: v0) simp_all

lemma same_snd_LetI: "(\<And>v. snd (f v) = c) \<Longrightarrow> snd (Let a f) = (c :: image)"
  by simp

lemma same_snd_ifI:
  "snd a = c \<Longrightarrow> snd b = c \<Longrightarrow> snd (if x then a else b) = (c :: image)"
  by simp

lemma same_snd_pairI: "v = c \<Longrightarrow> snd (a, v) = (c :: image)"
  by simp

lemmas same_intros =
  same_Let_imageI same_LetI same_ifI same_case_prodI same_circleI same_lineI same_foldI
  same_snd_LetI same_snd_ifI same_snd_pairI

lemma same_draw_trail:
  "canvas = c \<Longrightarrow> draw_trail test_library self p col x y sz n i canvas = c"
  unfolding draw_trail_def by (intro same_intros; assumption)

lemma same_draw_particle:
  "canvas = c \<Longrightarrow> draw_particle test_library self frame p canvas = c"
  unfolding draw_particle_def by (intro same_intros same_draw_trail; assumption)

lemma same_draw_bokeh_step:
  "canvas = c \<Longrightarrow> snd (draw_bokeh_step test_library self frame b canvas) = c"
  unfolding draw_bokeh_step_def by (intro same_intros; assumption)

lemma same_draw_bokeh:
  "canvas = c \<Longrightarrow> snd (draw_bokeh test_library self frame bs canvas) = c"
  by (induction bs arbitrary: canvas) (simp_all add: split_beta same_draw_bokeh_step)

lemma same_draw_wave_segment:
  "canvas = c \<Longrightarrow> draw_wave_segment test_library self col t seg canvas = c"
  unfolding draw_wave_segment_def by (intro same_intros; assumption)

lemma same_draw_wave:
  "canvas = c \<Longrightarrow> draw_wave test_library self t i canvas = c"
  unfolding draw_wave_def by (intro same_intros same_draw_wave_segment; assumption)

lemma same_draw_waves:
  "canvas = c \<Longrightarrow> draw_waves test_library self frame canvas = c"
  unfolding draw_waves_def by (intro same_intros same_draw_wave; assumption)

lemma same_draw_spiral_point:
  "canvas = c \<Longrightarrow> draw_spiral_point test_library self t vtx cx cy n i canvas = c"
  unfolding draw_spiral_point_def by (intro same_intros; assumption)

lemma same_draw_vortex:
  "canvas = c \<Longrightarrow> draw_vortex test_library self t vtx canvas = c"
  unfolding draw_vortex_def by (intro same_intros same_draw_spiral_point; assumption)

lemma same_draw_vortex_field:
  "canvas = c \<Longrightarrow> draw_vortex_field test_library self frame canvas = c"
  unfolding draw_vortex_field_def by (intro same_intros same_draw_vortex; assumption)

lemma same_draw_particles:
  "draw_particles test_library self frame ps canvas g = Inr (ps', canvas', g')
     \<Longrightarrow> canvas' = canvas"
proof (induction ps arbitrary: canvas g ps')
  case Nil
  then show ?case by simp
next
  case (Cons p ps)
  then show ?case
    by (auto simp: same_draw_particle split: sum.splits)
qed

lemma same_draw_layers:
  assumes "draw_layers test_library self frame canvas g = Inr (canvas', self', g')"
  shows "canvas' = canvas"
proof -
  let ?bs = "fst (draw_bokeh test_library self frame (bokeh_particles self) canvas)"
  let ?s = "self\<lparr>bokeh_particles := ?bs\<rparr>"
  have c: "draw_vortex_field test_library ?s frame
      (draw_waves test_library ?s frame
        (snd (draw_bokeh test_library self frame (bokeh_particles self) canvas))) = canvas"
    by (intro same_draw_vortex_field same_draw_waves same_draw_bokeh refl)
  show ?thesis
    using assms unfolding draw_layers_def Let_def split_beta c
    by (auto split: sum.splits dest: same_draw_particles)
qed

lemma weighted_same: "a + b = 1 \<Longrightarrow> weighted a b 0 v v = v"
proof -
  assume "a + b = 1"
  then have "real (unat v) * a + real (unat v) * b + 0 = real (unat v)"
    by (simp add: distrib_left [symmetric])
  then show ?thesis by (simp only: weighted_def saturate_u8_unat)
qed

lemma addWeighted_same: "a + b = 1 \<Longrightarrow> addWeighted img a img b 0 = img"
  by (cases img) (simp add: addWeighted_def weighted_same split_beta)

lemma same_distorted: "distorted test_library self canvas frame = canvas"
  by (cases canvas) (simp add: distorted_def remap_def split_beta test_library_def)

lemma same_apply_reality_distortion:
  "apply_reality_distortion test_library self canvas frame = canvas"
  by (simp add: apply_reality_distortion_def same_distorted addWeighted_same)


lemma scenario_tint: "background_tint (fst (chimerox_init lib scenario g)) 0 = (20, 10, 6)"
proof -
  have "py_int (20 + 10 * sin (of_int 0 * 0.01 + phase scenario)) = 20"
    by (simp add: scenario_def py_int_def)
  then show ?thesis by (simp add: background_tint_def init_config)
qed

lemma scenario_cleared:
  "cleared_canvas (fst (chimerox_init lib scenario g)) 0
     = \<lparr>rows = 480, cols = 640, pixels = (\<lambda>r c. (20, 10, 6))\<rparr>"
  by (simp add: cleared_canvas_def scenario_tint init_config) (simp add: scenario_def)

lemma new_particle_life_draw:
  "p_life (fst (new_particle lib self g0)) =
     80 + 220 * fst (random_random lib (snd (random_random lib (snd (random_random lib
            (snd (random_random lib (snd (random_random lib (snd (random_random lib g0)))))))))))"
  by (simp add: new_particle_def uniform_def Let_def split_beta)

lemma init_particle_nth:
  assumes "i < length (particles (fst (chimerox_init lib cfg g)))"
  shows "particles (fst (chimerox_init lib cfg g)) ! i =
      fst (new_particle lib
        ((unassigned cfg)\<lparr>total_frames := duration cfg * fps cfg,
          num_particles := particle_total cfg\<rparr>)
        (random_seed lib ((iota cfg + int i * omicron cfg) mod 10000)))"
proof -
  have "i < nat (particle_total cfg)"
    using assms by (simp add: init_particles_arg init_particles_length init_cfg_fields)
  then show ?thesis
    by (simp add: init_particles_arg init_particles_map init_cfg_fields)
qed

lemma update_particle_life_draw:
  assumes "update_particle lib self p frame h = Inr (p', h')"
      and "p_life p < of_int (p_age p + 1)"
  shows "p_life p' = 50 + 150 * fst (random_random lib (snd (random_random lib
            (snd (random_random lib (snd (random_random lib h)))))))"
proof -
  obtain w where w: "update_particle_wrap self (fst (update_particle_move lib self p frame h)) = Inr w"
    and r: "(p', h') = update_particle_age lib self w (snd (random_random lib h))"
    using update_particle_Inr [OF assms(1)] by blast
  have keep: "p_age w = p_age p" "p_life w = p_life p"
    using update_particle_wrap_Inr [OF w] by (simp_all add: update_particle_move_keeps)
  have dead: "p_life w < of_int (p_age w + 1)" using assms(2) keep by simp
  show ?thesis
    using r unfolding update_particle_age_respawn [OF dead]
    by (auto simp: split_beta Let_def)
qed

lemma still_respawn_low:
  "update_particle test_library (fst (chimerox_init test_library still 0))
     (resting\<lparr>p_age := 1000\<rparr>) 0 11
   = Inr (resting\<lparr>p_x := 80, p_y := 270, p_life := 50\<rparr>, 39)"
  by (simp add: update_particle_def update_particle_move_def update_particle_wrap_def wrap_def
      update_particle_age_def uniform_def init_config test_library_draw still_def resting_def)

section \<open>The number of particles\<close>

text \<open>
  At density 400 and entropy 0.5 the constructor builds 38 particles.
\<close>

lemma particle_count_400:
  assumes "threshold cfg = 400" "entropy cfg = 1 / 2"
  shows "num_particles (fst (chimerox_init lib cfg g)) = 38"
proof -
  have t: "of_int (threshold cfg) = (400 :: real)" using assms by simp
  have "py_int (5488762045857791 / 2 ^ 47) = 38" by (simp add: py_int_def)
  then have "particle_total cfg = 38" by (simp only: t assms(2) float_product_400)
  then show ?thesis by (simp only: init_num_particles)
qed



section \<open>Seeding of the particles\<close>

text \<open>
  Claim C2. Before particle \<open>i\<close> is initialised the global generator is re-seeded with
  \<open>(iota + i * omicron) mod 10000\<close>, and the fields are drawn in the order x, y, vx, vy,
  size, life, orbit radius, orbit speed, colour offset. The particle at index \<open>i\<close> of the
  constructed object is therefore a function of \<open>i\<close> and the configuration alone: neither
  the state of the generator before the constructor nor the number of particles occurs
  on the right-hand side.
\<close>

theorem particle_seeding:
  "i < length (particles (fst (chimerox_init lib cfg g))) \<Longrightarrow>
   particles (fst (chimerox_init lib cfg g)) ! i =
     (let g0 = random_seed lib ((iota cfg + int i * omicron cfg) mod 10000);
          (u1, g1) = random_random lib g0;
          (u2, g2) = random_random lib g1;
          (u3, g3) = random_random lib g2;
          (u4, g4) = random_random lib g3;
          (u5, g5) = random_random lib g4;
          (u6, g6) = random_random lib g5;
          (u7, g7) = random_random lib g6;
          (u8, g8) = random_random lib g7;
          (u9, g9) = random_random lib g8
      in \<lparr>p_x = of_int (width cfg) * u1,
          p_y = of_int (height cfg) * u2,
          p_vx = (- 4 + 8 * u3) * entropy cfg,
          p_vy = (- 4 + 8 * u4) * entropy cfg,
          p_size = 2 + 10 * u5,
          p_age = 0,
          p_life = 80 + 220 * u6,
          p_orbit_radius = 20 + 180 * u7,
          p_orbit_speed = (0.02 + 0.06 * u8) * resonance cfg,
          p_color_offset = u9\<rparr>)"
proof -
  assume i: "i < length (particles (fst (chimerox_init lib cfg g)))"
  then have "i < nat (particle_total cfg)"
    by (simp add: init_particles_arg init_particles_length init_cfg_fields)
  then have step: "particles (fst (chimerox_init lib cfg g)) ! i =
      fst (new_particle lib
        ((unassigned cfg)\<lparr>total_frames := duration cfg * fps cfg,
          num_particles := particle_total cfg\<rparr>)
        (random_seed lib ((iota cfg + int i * omicron cfg) mod 10000)))"
    by (simp add: init_particles_arg init_particles_map init_cfg_fields)
  show ?thesis
    unfolding step
    by (simp add: new_particle_def uniform_def Let_def split_beta init_cfg_fields)
qed

theorem particle_seeding_witness:
  "3 < length (particles (fst (chimerox_init test_library scenario 0)))
   \<and> particles (fst (chimerox_init test_library scenario 0)) ! 3 =
       \<lparr>p_x = 360, p_y = 0, p_vx = - 1 / 4, p_vy = 3 / 2,
        p_size = 41 / 8, p_age = 0, p_life = 245, p_orbit_radius = 215 / 4,
        p_orbit_speed = 23 / 200, p_color_offset = 1 / 16\<rparr>"
  using particle_seeding [of 3 test_library scenario 0] scenario_length [of test_library 0]
  by (simp add: test_library_seed test_library_draw scenario_def)

section \<open>Respawn\<close>

text \<open>
  Claim C7. When the age of a particle, incremented by an update, exceeds its life (in
  particular when the age was already above the life before the call), that same update
  sets the age to 0, redraws the position as \<open>uniform(0, width)\<close>, \<open>uniform(0, height)\<close> and
  the life as \<open>uniform(50, 200)\<close>, from the three draws that follow the chaos draw. With
  draws in \<open>[0, 1)\<close> the new life lies in \<open>[50, 200]\<close> and the new position on the canvas.
\<close>

theorem particle_respawn:
  assumes "update_particle lib self p frame g = Inr (p', g')"
      and "p_life p < of_int (p_age p + 1)"
  shows "(let (chaos, g1) = random_random lib g;
              (ux, g2) = random_random lib g1;
              (uy, g3) = random_random lib g2;
              (ul, g4) = random_random lib g3
          in p_age p' = 0
             \<and> p_x p' = of_int (width self) * ux
             \<and> p_y p' = of_int (height self) * uy
             \<and> p_life p' = 50 + 150 * ul
             \<and> g' = g4)
         \<and> (unit_draws lib \<longrightarrow> 50 \<le> p_life p' \<and> p_life p' \<le> 200)
         \<and> (unit_draws lib \<and> 0 \<le> width self \<and> 0 \<le> height self \<longrightarrow>
              0 \<le> p_x p' \<and> p_x p' \<le> of_int (width self)
              \<and> 0 \<le> p_y p' \<and> p_y p' \<le> of_int (height self))"
proof -
  obtain w where w: "update_particle_wrap self (fst (update_particle_move lib self p frame g)) = Inr w"
    and r: "(p', g') = update_particle_age lib self w (snd (random_random lib g))"
    using update_particle_Inr [OF assms(1)] by blast
  have keep: "p_age w = p_age p" "p_life w = p_life p"
    using update_particle_wrap_Inr [OF w] by (simp_all add: update_particle_move_keeps)
  have dead: "p_life w < of_int (p_age w + 1)"
    using assms(2) keep by simp
  define g1 where "g1 = snd (random_random lib g)"
  define g2 where "g2 = snd (random_random lib g1)"
  define g3 where "g3 = snd (random_random lib g2)"
  have eq: "p' = w\<lparr>p_age := 0, p_x := of_int (width self) * fst (random_random lib g1),
                   p_y := of_int (height self) * fst (random_random lib g2),
                   p_life := 50 + 150 * fst (random_random lib g3)\<rparr>"
       "g' = snd (random_random lib g3)"
    using r unfolding update_particle_age_respawn [OF dead] g1_def g2_def g3_def
    by (simp_all add: split_beta)
  have first: "(let (chaos, g1) = random_random lib g;
              (ux, g2) = random_random lib g1;
              (uy, g3) = random_random lib g2;
              (ul, g4) = random_random lib g3
          in p_age p' = 0
             \<and> p_x p' = of_int (width self) * ux
             \<and> p_y p' = of_int (height self) * uy
             \<and> p_life p' = 50 + 150 * ul
             \<and> g' = g4)"
    by (simp add: split_beta eq g1_def g2_def g3_def)
  have u: "0 \<le> fst (random_random lib h) \<and> fst (random_random lib h) < 1"
    if "unit_draws lib" for h
    using that by (simp add: unit_draws_def)
  have second: "50 \<le> p_life p' \<and> p_life p' \<le> 200" if "unit_draws lib"
    using u [OF that, of g3] by (simp add: eq)
  have third: "0 \<le> p_x p' \<and> p_x p' \<le> of_int (width self)
              \<and> 0 \<le> p_y p' \<and> p_y p' \<le> of_int (height self)"
    if "unit_draws lib" "0 \<le> width self" "0 \<le> height self"
  proof -
    have "0 \<le> of_int (width self) * fst (random_random lib g1)"
         "of_int (width self) * fst (random_random lib g1) \<le> of_int (width self) * 1"
      using u [OF that(1), of g1] that(2)
      by (simp_all add: mult_left_le)
    moreover have "0 \<le> of_int (height self) * fst (random_random lib g2)"
         "of_int (height self) * fst (random_random lib g2) \<le> of_int (height self) * 1"
      using u [OF that(1), of g2] that(3)
      by (simp_all add: mult_left_le)
    ultimately show ?thesis by (simp add: eq)
  qed
  show ?thesis using first second third by blast
qed

theorem particle_respawn_witness:
  "update_particle test_library (fst (chimerox_init test_library still 0))
     (resting\<lparr>p_age := 1000\<rparr>) 0 5
   = Inr (resting\<lparr>p_x := 480, p_y := 90, p_life := 575 / 4\<rparr>, 33)
   \<and> p_life (resting\<lparr>p_age := 1000\<rparr>) < of_int (p_age (resting\<lparr>p_age := 1000\<rparr>) + 1)
   \<and> unit_draws test_library
   \<and> p_age (resting\<lparr>p_x := 480, p_y := 90, p_life := 575 / 4\<rparr>) = 0
   \<and> 50 \<le> p_life (resting\<lparr>p_x := 480, p_y := 90, p_life := 575 / 4\<rparr>)
   \<and> p_life (resting\<lparr>p_x := 480, p_y := 90, p_life := 575 / 4\<rparr>) \<le> 200"
  using particle_respawn [OF still_update] test_library_unit_draws still_update
  by (simp add: resting_def)

section \<open>Boundary wrapping\<close>

text \<open>
  Claim C8. In every update that returns, a coordinate that the move has taken below 0
  or above the extent of its axis is replaced by \<open>(coord + phase * 100) mod extent\<close>, each
  axis on its own; the ageing step then runs on the wrapped particle, and unless it
  respawns the particle these are the coordinates after the update. With phase 0 the
  coordinate \<open>width + 5\<close> wraps to \<open>5 mod width\<close>.
\<close>

theorem boundary_wrap:
  assumes "update_particle lib self p frame g = Inr (p', g')"
  shows "(let m = fst (update_particle_move lib self p frame g);
              wx = (if p_x m < 0 \<or> p_x m > of_int (width self)
                    then py_fmod (p_x m + phase self * 100) (of_int (width self))
                    else p_x m);
              wy = (if p_y m < 0 \<or> p_y m > of_int (height self)
                    then py_fmod (p_y m + phase self * 100) (of_int (height self))
                    else p_y m)
          in (p', g') = update_particle_age lib self (m\<lparr>p_x := wx, p_y := wy\<rparr>)
                          (snd (random_random lib g))
             \<and> (\<not> p_life p < of_int (p_age p + 1) \<longrightarrow> p_x p' = wx \<and> p_y p' = wy))
         \<and> (phase self = 0 \<and> 0 < width self \<longrightarrow>
               wrap (phase self) (width self) (of_int (width self) + 5)
                 = Inr (py_fmod 5 (of_int (width self))))"
proof -
  define m where "m = fst (update_particle_move lib self p frame g)"
  define wx where "wx = (if p_x m < 0 \<or> p_x m > of_int (width self)
                    then py_fmod (p_x m + phase self * 100) (of_int (width self))
                    else p_x m)"
  define wy where "wy = (if p_y m < 0 \<or> p_y m > of_int (height self)
                    then py_fmod (p_y m + phase self * 100) (of_int (height self))
                    else p_y m)"
  obtain w where w: "update_particle_wrap self m = Inr w"
    and r: "(p', g') = update_particle_age lib self w (snd (random_random lib g))"
    using update_particle_Inr [OF assms] unfolding m_def by blast
  have weq: "w = m\<lparr>p_x := wx, p_y := wy\<rparr>"
    using update_particle_wrap_Inr [OF w] by (simp add: wx_def wy_def)
  have keep: "p_age w = p_age p" "p_life w = p_life p"
    by (simp_all add: weq m_def update_particle_move_keeps)
  have a: "(p', g') = update_particle_age lib self (m\<lparr>p_x := wx, p_y := wy\<rparr>)
                          (snd (random_random lib g))"
    using r weq by simp
  have b: "p_x p' = wx \<and> p_y p' = wy" if "\<not> p_life p < of_int (p_age p + 1)"
  proof -
    have nd: "\<not> p_life w < of_int (p_age w + 1)" using that keep by simp
    have "p' = w\<lparr>p_age := p_age w + 1\<rparr>"
      using r by (simp add: update_particle_age_keep [OF nd])
    then show ?thesis by (simp add: weq)
  qed
  have c: "wrap (phase self) (width self) (of_int (width self) + 5)
                 = Inr (py_fmod 5 (of_int (width self)))"
    if "phase self = 0" "0 < width self"
    using that py_fmod_shift [of "of_int (width self)" 5]
    by (simp add: wrap_def)
  show ?thesis
    using a b c unfolding Let_def m_def [symmetric] wx_def [symmetric] wy_def [symmetric]
    by blast
qed

theorem boundary_wrap_witness:
  "update_particle test_library (fst (chimerox_init test_library still 0))
     (resting\<lparr>p_x := 645\<rparr>) 0 5
   = Inr (resting\<lparr>p_x := 5, p_age := 1\<rparr>, 12)
   \<and> \<not> p_life (resting\<lparr>p_x := 645\<rparr>) < of_int (p_age (resting\<lparr>p_x := 645\<rparr>) + 1)
   \<and> p_x (fst (update_particle_move test_library (fst (chimerox_init test_library still 0))
              (resting\<lparr>p_x := 645\<rparr>) 0 5)) = 645
   \<and> p_x (resting\<lparr>p_x := 5, p_age := 1\<rparr>) = py_fmod 645 640
   \<and> phase (fst (chimerox_init test_library still 0)) = 0
   \<and> 0 < width (fst (chimerox_init test_library still 0))
   \<and> wrap (phase (fst (chimerox_init test_library still 0)))
        (width (fst (chimerox_init test_library still 0)))
        (of_int (width (fst (chimerox_init test_library still 0))) + 5)
      = Inr (py_fmod 5 (of_int (width (fst (chimerox_init test_library still 0)))))"
  using boundary_wrap [OF still_wrap] still_wrap
  by (simp add: init_config still_def resting_def update_particle_move_def test_library_draw
      py_fmod_def)

section \<open>The life of a particle\<close>

text \<open>
  Claim C10. The life of particle \<open>i\<close> of the constructed object is the sixth draw after
  its re-seeding, taken by \<open>uniform(80, 300)\<close>: \<open>80 + 220 * u\<close>, in \<open>[80, 300]\<close>. A respawn
  redraws the life by \<open>uniform(50, 200)\<close> from the third draw after the chaos draw:
  \<open>50 + 150 * u\<close>, in \<open>[50, 200]\<close>. The two ranges differ: a draw above \<open>6/11\<close> gives an
  initial life above 200, which no respawn gives, and a draw below \<open>1/5\<close> gives a respawn
  life below 80, which no initial life is. An update without respawn leaves the life as
  it is, so a life in \<open>[50, 200]\<close> stays there under every later update: after its first
  respawn a particle never gets a life from the initial range again.
\<close>

theorem life_ranges:
  assumes "unit_draws lib"
  shows "(i < length (particles (fst (chimerox_init lib cfg g))) \<longrightarrow>
            (let g0 = random_seed lib ((iota cfg + int i * omicron cfg) mod 10000);
                 g1 = snd (random_random lib g0);
                 g2 = snd (random_random lib g1);
                 g3 = snd (random_random lib g2);
                 g4 = snd (random_random lib g3);
                 g5 = snd (random_random lib g4);
                 u = fst (random_random lib g5)
             in p_life (particles (fst (chimerox_init lib cfg g)) ! i) = 80 + 220 * u
                \<and> 80 \<le> p_life (particles (fst (chimerox_init lib cfg g)) ! i)
                \<and> p_life (particles (fst (chimerox_init lib cfg g)) ! i) \<le> 300
                \<and> (6 / 11 < u \<longrightarrow>
                     200 < p_life (particles (fst (chimerox_init lib cfg g)) ! i))))
       \<and> (update_particle lib self p frame h = Inr (p', h') \<longrightarrow>
            (if p_life p < of_int (p_age p + 1)
             then (let g1 = snd (random_random lib h);
                       g2 = snd (random_random lib g1);
                       g3 = snd (random_random lib g2);
                       u = fst (random_random lib g3)
                   in p_life p' = 50 + 150 * u
                      \<and> 50 \<le> p_life p' \<and> p_life p' \<le> 200
                      \<and> (u < 1 / 5 \<longrightarrow> p_life p' < 80))
             else p_life p' = p_life p))
       \<and> (update_particle lib self p frame h = Inr (p', h')
            \<and> 50 \<le> p_life p \<and> p_life p \<le> 200 \<longrightarrow>
            50 \<le> p_life p' \<and> p_life p' \<le> 200)"
proof -
  let ?S = "fst (chimerox_init lib cfg g)"
  have a: "(let g0 = random_seed lib ((iota cfg + int i * omicron cfg) mod 10000);
                 g1 = snd (random_random lib g0);
                 g2 = snd (random_random lib g1);
                 g3 = snd (random_random lib g2);
                 g4 = snd (random_random lib g3);
                 g5 = snd (random_random lib g4);
                 u = fst (random_random lib g5)
             in p_life (particles ?S ! i) = 80 + 220 * u
                \<and> 80 \<le> p_life (particles ?S ! i)
                \<and> p_life (particles ?S ! i) \<le> 300
                \<and> (6 / 11 < u \<longrightarrow> 200 < p_life (particles ?S ! i)))"
    if lt: "i < length (particles ?S)"
  proof -
    define u where "u = fst (random_random lib (snd (random_random lib (snd (random_random lib (snd (random_random lib (snd (random_random lib (snd (random_random lib (random_seed lib ((iota cfg + int i * omicron cfg) mod 10000)))))))))))))"
    have k: "p_life (particles ?S ! i) = 80 + 220 * u"
      unfolding init_particle_nth [OF lt] new_particle_life_draw u_def ..
    have "0 \<le> u \<and> u < 1" unfolding u_def using unit_drawsD [OF assms] .
    then have "80 \<le> p_life (particles ?S ! i) \<and> p_life (particles ?S ! i) \<le> 300
        \<and> (6 / 11 < u \<longrightarrow> 200 < p_life (particles ?S ! i))"
      unfolding k by auto
    then show ?thesis using k unfolding Let_def u_def by blast
  qed
  have b: "if p_life p < of_int (p_age p + 1)
             then (let g1 = snd (random_random lib h);
                       g2 = snd (random_random lib g1);
                       g3 = snd (random_random lib g2);
                       u = fst (random_random lib g3)
                   in p_life p' = 50 + 150 * u
                      \<and> 50 \<le> p_life p' \<and> p_life p' \<le> 200
                      \<and> (u < 1 / 5 \<longrightarrow> p_life p' < 80))
             else p_life p' = p_life p"
    if up: "update_particle lib self p frame h = Inr (p', h')"
  proof (cases "p_life p < of_int (p_age p + 1)")
    case True
    define u where "u = fst (random_random lib (snd (random_random lib
            (snd (random_random lib (snd (random_random lib h)))))))"
    have k: "p_life p' = 50 + 150 * u"
      unfolding u_def by (rule update_particle_life_draw [OF up True])
    have "0 \<le> u \<and> u < 1" unfolding u_def using unit_drawsD [OF assms] .
    then have "50 \<le> p_life p' \<and> p_life p' \<le> 200 \<and> (u < 1 / 5 \<longrightarrow> p_life p' < 80)"
      unfolding k by auto
    then show ?thesis using True k unfolding Let_def u_def by simp
  next
    case False
    then show ?thesis using update_particle_life [OF up] by simp
  qed
  have c: "50 \<le> p_life p' \<and> p_life p' \<le> 200"
    if up: "update_particle lib self p frame h = Inr (p', h')"
      and lo: "50 \<le> p_life p" and hi: "p_life p \<le> 200"
    using b [OF up] lo hi
    by (cases "p_life p < of_int (p_age p + 1)") (simp_all add: Let_def)
  show ?thesis using a b c by blast
qed

theorem life_ranges_witness:
  "unit_draws test_library
   \<and> 3 < length (particles (fst (chimerox_init test_library scenario 0)))
   \<and> p_life (particles (fst (chimerox_init test_library scenario 0)) ! 3) = 245
   \<and> 200 < p_life (particles (fst (chimerox_init test_library scenario 0)) ! 3)
   \<and> update_particle test_library (fst (chimerox_init test_library still 0))
        (resting\<lparr>p_age := 1000\<rparr>) 0 11
      = Inr (resting\<lparr>p_x := 80, p_y := 270, p_life := 50\<rparr>, 39)
   \<and> p_life (resting\<lparr>p_age := 1000\<rparr>) < of_int (p_age (resting\<lparr>p_age := 1000\<rparr>) + 1)
   \<and> p_life (resting\<lparr>p_x := 80, p_y := 270, p_life := 50\<rparr>) = 50
   \<and> p_life (resting\<lparr>p_x := 80, p_y := 270, p_life := 50\<rparr>) < 80
   \<and> update_particle test_library (fst (chimerox_init test_library still 0))
        (resting\<lparr>p_x := 645\<rparr>) 0 5
      = Inr (resting\<lparr>p_x := 5, p_age := 1\<rparr>, 12)
   \<and> 50 \<le> p_life (resting\<lparr>p_x := 645\<rparr>) \<and> p_life (resting\<lparr>p_x := 645\<rparr>) \<le> 200
   \<and> 50 \<le> p_life (resting\<lparr>p_x := 5, p_age := 1\<rparr>)
   \<and> p_life (resting\<lparr>p_x := 5, p_age := 1\<rparr>) \<le> 200"
proof -
  have a: "p_life (particles (fst (chimerox_init test_library scenario 0)) ! 3) = 245
      \<and> 200 < p_life (particles (fst (chimerox_init test_library scenario 0)) ! 3)
      \<and> p_life (resting\<lparr>p_x := 80, p_y := 270, p_life := 50\<rparr>) = 50
      \<and> p_life (resting\<lparr>p_x := 80, p_y := 270, p_life := 50\<rparr>) < 80"
    using life_ranges [OF test_library_unit_draws, of 3 scenario 0
        "fst (chimerox_init test_library still 0)" "resting\<lparr>p_age := 1000\<rparr>" 0 11
        "resting\<lparr>p_x := 80, p_y := 270, p_life := 50\<rparr>" 39]
      scenario_length [of test_library 0] still_respawn_low
    by (simp add: test_library_seed test_library_draw scenario_def resting_def)
  have b: "50 \<le> p_life (resting\<lparr>p_x := 5, p_age := 1\<rparr>)
      \<and> p_life (resting\<lparr>p_x := 5, p_age := 1\<rparr>) \<le> 200"
    using life_ranges [OF test_library_unit_draws, of 3 scenario 0
        "fst (chimerox_init test_library still 0)" "resting\<lparr>p_x := 645\<rparr>" 0 5
        "resting\<lparr>p_x := 5, p_age := 1\<rparr>" 12]
      still_wrap
    by (simp add: resting_def)
  show ?thesis
    using a b test_library_unit_draws scenario_length [of test_library 0]
      still_respawn_low still_wrap
    by (simp add: resting_def)
qed

section \<open>The distortion pass: blend and skip\<close>

text \<open>
  Claim C5. The blend factor is \<open>min(1, distortion_strength * 2)\<close>, and when the pass
  runs the emitted frame is \<^verbatim>\<open>addWeighted\<close> of the canvas with weight \<open>1 - blend_factor\<close>
  and the resampled canvas with weight \<open>blend_factor\<close>. For a strength of at least 0.5
  the factor is exactly 1 and the emitted frame is the resampled canvas itself.
\<close>

theorem distortion_blend:
  "blend_factor self = min 1 (distortion_strength self * 2)
   \<and> (\<not> distortion_strength self < 0.05 \<longrightarrow>
        apply_reality_distortion lib self canvas frame
          = addWeighted canvas (1 - blend_factor self)
              (distorted lib self canvas frame) (blend_factor self) 0)
   \<and> (0.5 \<le> distortion_strength self \<longrightarrow>
        blend_factor self = 1
        \<and> apply_reality_distortion lib self canvas frame = distorted lib self canvas frame)"
proof -
  have a: "blend_factor self = min 1 (distortion_strength self * 2)"
    by (simp add: blend_factor_def)
  have b: "apply_reality_distortion lib self canvas frame
          = addWeighted canvas (1 - blend_factor self)
              (distorted lib self canvas frame) (blend_factor self) 0"
    if "\<not> distortion_strength self < 0.05"
    using that by (simp add: apply_reality_distortion_def)
  have c: "blend_factor self = 1
        \<and> apply_reality_distortion lib self canvas frame = distorted lib self canvas frame"
    if s: "0.5 \<le> distortion_strength self"
  proof -
    have one: "blend_factor self = 1" using s by (simp add: blend_factor_def)
    have "\<not> distortion_strength self < 0.05" using s by simp
    then have "apply_reality_distortion lib self canvas frame
        = addWeighted canvas 0 (distorted lib self canvas frame) 1 0"
      by (simp add: apply_reality_distortion_def one)
    then show ?thesis
      using one by (simp add: addWeighted_second distorted_shape)
  qed
  show ?thesis using a b c by blast
qed

theorem distortion_blend_witness:
  "\<not> distortion_strength (fst (chimerox_init test_library (scenario\<lparr>entropy := 1\<rparr>) 0)) < 0.05
   \<and> 0.5 \<le> distortion_strength (fst (chimerox_init test_library (scenario\<lparr>entropy := 1\<rparr>) 0))
   \<and> blend_factor (fst (chimerox_init test_library (scenario\<lparr>entropy := 1\<rparr>) 0)) = 1
   \<and> apply_reality_distortion test_library
        (fst (chimerox_init test_library (scenario\<lparr>entropy := 1\<rparr>) 0)) two_by_two 0
      = distorted test_library
          (fst (chimerox_init test_library (scenario\<lparr>entropy := 1\<rparr>) 0)) two_by_two 0"
proof -
  let ?S = "fst (chimerox_init test_library (scenario\<lparr>entropy := 1\<rparr>) 0)"
  have s: "distortion_strength ?S = 3 / 5"
    by (simp add: init_distortion_strength scenario_def)
  have h: "0.5 \<le> distortion_strength ?S" unfolding s by simp
  have "blend_factor ?S = 1
      \<and> apply_reality_distortion test_library ?S two_by_two 0
          = distorted test_library ?S two_by_two 0"
    using distortion_blend [of ?S test_library two_by_two 0] h by blast
  moreover have "\<not> distortion_strength ?S < 0.05" unfolding s by simp
  ultimately show ?thesis using h by blast
qed

text \<open>
  Claim C6. When the distortion strength is below 0.05 the pass returns the canvas it
  was given, whatever the library does, so the frame that \<^verbatim>\<open>_draw_frame\<close> returns for
  the video sink is the composite of the four layers, unchanged.
\<close>

theorem distortion_skip:
  assumes "distortion_strength self < 0.05"
  shows "apply_reality_distortion lib self canvas frame = canvas
       \<and> (case composite_frame lib self frame g of
             Inl e \<Rightarrow> draw_frame lib self frame g = Inl e
           | Inr (composite, self', g') \<Rightarrow>
               draw_frame lib self frame g = Inr (composite, self', g'))"
proof -
  have a: "apply_reality_distortion lib self canvas frame = canvas"
    using assms by (simp add: apply_reality_distortion_def)
  have b: "draw_frame lib self frame g = Inr (composite, self', g')"
    if c: "composite_frame lib self frame g = Inr (composite, self', g')"
    for composite self' g'
  proof -
    have "distortion_strength self' < 0.05"
      using composite_frame_strength [OF c] assms by simp
    then show ?thesis
      by (simp add: draw_frame_def c apply_reality_distortion_def)
  qed
  have c: "draw_frame lib self frame g = Inl e"
    if "composite_frame lib self frame g = Inl e" for e
    using that by (simp add: draw_frame_def)
  show ?thesis using a b c by (auto split: sum.splits)
qed

theorem distortion_skip_witness:
  "distortion_strength (fst (chimerox_init test_library still 0)) < 0.05
   \<and> apply_reality_distortion test_library (fst (chimerox_init test_library still 0))
        two_by_two 0 = two_by_two"
  using distortion_skip [of "fst (chimerox_init test_library still 0)" test_library two_by_two 0 0]
  by (simp add: init_distortion_strength still_def)

section \<open>Where the distortion strength comes from\<close>

text \<open>
  Claim C9. The distortion strength is not an argument of the constructor: the object
  holds \<open>entropy * resonance * 0.3\<close>, and it is this value that decides whether the pass
  is skipped (below 0.05), whether there are distortion centres (none below 0.1,
  otherwise \<open>int(1 + entropy * 2)\<close> of them, each with a strength that is a draw of
  \<open>uniform(0.5, 1.5)\<close> times it), the sampling step and the blend factor.
\<close>

theorem distortion_strength_derived:
  "distortion_strength (fst (chimerox_init lib cfg g)) = entropy cfg * resonance cfg * 0.3
   \<and> (entropy cfg * resonance cfg * 0.3 < 0.05 \<longrightarrow>
        apply_reality_distortion lib (fst (chimerox_init lib cfg g)) canvas frame = canvas)
   \<and> (\<not> entropy cfg * resonance cfg * 0.3 < 0.05 \<longrightarrow>
        apply_reality_distortion lib (fst (chimerox_init lib cfg g)) canvas frame
          = addWeighted canvas (1 - min 1 (entropy cfg * resonance cfg * 0.3 * 2))
              (distorted lib (fst (chimerox_init lib cfg g)) canvas frame)
              (min 1 (entropy cfg * resonance cfg * 0.3 * 2)) 0)
   \<and> (entropy cfg * resonance cfg * 0.3 < 0.1 \<longrightarrow>
        distortion_centers (fst (chimerox_init lib cfg g)) = [])
   \<and> (\<not> entropy cfg * resonance cfg * 0.3 < 0.1 \<longrightarrow>
        length (distortion_centers (fst (chimerox_init lib cfg g)))
          = nat (py_int (1 + entropy cfg * 2))
        \<and> (\<forall>c \<in> set (distortion_centers (fst (chimerox_init lib cfg g))).
             \<exists>h. d_strength c
               = (0.5 + fst (random_random lib h)) * (entropy cfg * resonance cfg * 0.3)))
   \<and> distortion_step (fst (chimerox_init lib cfg g))
        = max 1 (py_int (4 - entropy cfg * resonance cfg * 0.3 * 8))
   \<and> blend_factor (fst (chimerox_init lib cfg g))
        = min 1 (entropy cfg * resonance cfg * 0.3 * 2)"
proof -
  let ?S = "fst (chimerox_init lib cfg g)"
  let ?s = "entropy cfg * resonance cfg * 0.3"
  have s: "distortion_strength ?S = ?s"
    by (rule init_distortion_strength)
  obtain self0 g0 where c: "distortion_centers ?S = fst (init_distortion_centers lib self0 g0)"
    and s0: "distortion_strength self0 = ?s" and e0: "entropy self0 = entropy cfg"
    using init_distortion_centers_arg [of lib cfg g] by blast
  have skip: "apply_reality_distortion lib ?S canvas frame = canvas" if "?s < 0.05"
    using that unfolding apply_reality_distortion_def s by simp
  have blend: "apply_reality_distortion lib ?S canvas frame
          = addWeighted canvas (1 - min 1 (?s * 2)) (distorted lib ?S canvas frame)
              (min 1 (?s * 2)) 0" if "\<not> ?s < 0.05"
    using that unfolding apply_reality_distortion_def blend_factor_def s by simp
  have none: "distortion_centers ?S = []" if "?s < 0.1"
    unfolding c using that init_distortion_centers_empty [of self0 lib g0] s0 by simp
  have some: "length (distortion_centers ?S) = nat (py_int (1 + entropy cfg * 2))
        \<and> (\<forall>c \<in> set (distortion_centers ?S).
             \<exists>h. d_strength c = (0.5 + fst (random_random lib h)) * ?s)" if n: "\<not> ?s < 0.1"
  proof -
    have "\<not> distortion_strength self0 < 0.1" using n s0 by simp
    from init_distortion_centers_full [OF this, of lib g0]
    show ?thesis unfolding c s0 e0 .
  qed
  have step: "distortion_step ?S = max 1 (py_int (4 - ?s * 8))"
    unfolding distortion_step_def s ..
  have bf: "blend_factor ?S = min 1 (?s * 2)"
    unfolding blend_factor_def s ..
  show ?thesis using s skip blend none some step bf by blast
qed


theorem distortion_strength_derived_witness:
  "distortion_strength (fst (chimerox_init test_library scenario 0)) = 3 / 10
   \<and> \<not> entropy scenario * resonance scenario * 0.3 < 0.1
   \<and> length (distortion_centers (fst (chimerox_init test_library scenario 0))) = 2
   \<and> distortion_step (fst (chimerox_init test_library scenario 0)) = 1
   \<and> blend_factor (fst (chimerox_init test_library scenario 0)) = 3 / 5
   \<and> entropy still * resonance still * 0.3 < 0.05
   \<and> distortion_centers (fst (chimerox_init test_library still 0)) = []
   \<and> apply_reality_distortion test_library (fst (chimerox_init test_library still 0))
        two_by_two 0 = two_by_two"
proof -
  have a: "distortion_strength (fst (chimerox_init test_library scenario 0)) = 3 / 10
   \<and> \<not> entropy scenario * resonance scenario * 0.3 < 0.1
   \<and> length (distortion_centers (fst (chimerox_init test_library scenario 0))) = 2
   \<and> distortion_step (fst (chimerox_init test_library scenario 0)) = 1
   \<and> blend_factor (fst (chimerox_init test_library scenario 0)) = 3 / 5"
    using distortion_strength_derived [of test_library scenario 0 two_by_two 0]
    by (simp add: scenario_def py_int_def)
  have b: "entropy still * resonance still * 0.3 < 0.05
   \<and> distortion_centers (fst (chimerox_init test_library still 0)) = []
   \<and> apply_reality_distortion test_library (fst (chimerox_init test_library still 0))
        two_by_two 0 = two_by_two"
    using distortion_strength_derived [of test_library still 0 two_by_two 0]
    by (simp add: still_def)
  show ?thesis using a b by blast
qed

section \<open>Determinism\<close>

text \<open>
  Claim C1. For a fixed configuration two independent runs write the same sequence of
  frames. A run reads nothing but its configuration, the library and the global
  generator of \<^verbatim>\<open>random\<close>; the constructor re-seeds that generator from the
  configuration before the first draw, so the frames do not depend on the state in
  which a run finds it. The list of frames, and so the frame at every index, is a
  function of the configuration.
\<close>

theorem run_deterministic:
  "run lib cfg g1 = run lib cfg g2
   \<and> fst (run lib cfg g1) ! n = fst (run lib cfg g2) ! n"
proof -
  have "run lib cfg g1 = run lib cfg g2"
    unfolding run_def init_ignores_generator [of lib cfg g1 g2] ..
  then show ?thesis by simp
qed

theorem run_deterministic_witness:
  "run test_library scenario 0 = run test_library scenario 1
   \<and> fst (run test_library scenario 0) ! 0 = fst (run test_library scenario 1) ! 0"
  using run_deterministic [of test_library scenario 0 1 0] .

section \<open>The end-to-end scenario\<close>

text \<open>
  Claim C4. With primary seed 12345, secondary seed 0, phase 0, density 500, resonance 2,
  entropy 0.5, a canvas of 640 by 480, one second and 24 frames per second, the run ends
  without an exception after writing exactly 24 frames, each of 480 rows and 640
  columns of three \<open>uint8\<close> channels. The background intensity of frame 0 is 20, and
  the canvas of frame 0 is cleared to \<open>(20, 10, 6)\<close> before any layer draws: frame 0 of
  the run is the distortion pass applied to the four layers drawn onto the canvas whose
  every pixel is \<open>(20, 10, 6)\<close>. With a library that draws nothing, frame 0 is that
  canvas.
\<close>

theorem end_to_end_scenario:
  "\<exists>frames canvas self' g'.
     run lib scenario g = (frames, None)
     \<and> length frames = 24
     \<and> list_all (\<lambda>f. rows f = 480 \<and> cols f = 640) frames
     \<and> total_frames (fst (chimerox_init lib scenario g)) = 24
     \<and> background_tint (fst (chimerox_init lib scenario g)) 0 = (20, 10, 6)
     \<and> cleared_canvas (fst (chimerox_init lib scenario g)) 0
         = \<lparr>rows = 480, cols = 640, pixels = (\<lambda>r c. (20, 10, 6))\<rparr>
     \<and> draw_layers lib (fst (chimerox_init lib scenario g)) 0
           \<lparr>rows = 480, cols = 640, pixels = (\<lambda>r c. (20, 10, 6))\<rparr>
           (snd (chimerox_init lib scenario g))
         = Inr (canvas, self', g')
     \<and> frames ! 0 = apply_reality_distortion lib self' canvas 0"
proof -
  have pos: "0 < width scenario" "0 < height scenario" "0 < duration scenario * fps scenario"
    by (simp_all add: scenario_def)
  obtain frames where r: "run lib scenario g = (frames, None)"
    and l: "length frames = nat (duration scenario * fps scenario)"
    and a: "list_all (\<lambda>f. shape f = (nat (height scenario), nat (width scenario))) frames"
    using run_total [OF pos(1,2), of lib g] by blast
  have l24: "length frames = 24" using l by (simp add: scenario_def)
  have a': "list_all (\<lambda>f. rows f = 480 \<and> cols f = 640) frames"
    using a by (simp add: scenario_def shape_def)
  have t: "total_frames (fst (chimerox_init lib scenario g)) = 24"
    by (simp add: init_total_frames scenario_def)
  obtain canvas self' g' where
    d: "draw_layers lib (fst (chimerox_init lib scenario g)) 0
           (cleared_canvas (fst (chimerox_init lib scenario g)) 0)
           (snd (chimerox_init lib scenario g))
         = Inr (canvas, self', g')"
    and f: "fst (run lib scenario g) ! 0 = apply_reality_distortion lib self' canvas 0"
    using run_first_frame [OF pos, of lib g] by blast
  have f0: "frames ! 0 = apply_reality_distortion lib self' canvas 0"
    using f r by simp
  show ?thesis
    using r l24 a' t scenario_tint [of lib g] scenario_cleared [of lib g]
      d [unfolded scenario_cleared] f0
    by blast
qed

theorem end_to_end_scenario_witness:
  "\<exists>frames. run test_library scenario 0 = (frames, None)
     \<and> length frames = 24
     \<and> list_all (\<lambda>f. rows f = 480 \<and> cols f = 640) frames
     \<and> total_frames (fst (chimerox_init test_library scenario 0)) = 24
     \<and> background_tint (fst (chimerox_init test_library scenario 0)) 0 = (20, 10, 6)
     \<and> frames ! 0 = \<lparr>rows = 480, cols = 640, pixels = (\<lambda>r c. (20, 10, 6))\<rparr>"
proof -
  obtain frames canvas self' g' where
    r: "run test_library scenario 0 = (frames, None)"
    and l: "length frames = 24"
    and a: "list_all (\<lambda>f. rows f = 480 \<and> cols f = 640) frames"
    and t: "total_frames (fst (chimerox_init test_library scenario 0)) = 24"
    and b: "background_tint (fst (chimerox_init test_library scenario 0)) 0 = (20, 10, 6)"
    and d: "draw_layers test_library (fst (chimerox_init test_library scenario 0)) 0
           \<lparr>rows = 480, cols = 640, pixels = (\<lambda>r c. (20, 10, 6))\<rparr>
           (snd (chimerox_init test_library scenario 0))
         = Inr (canvas, self', g')"
    and f: "frames ! 0 = apply_reality_distortion test_library self' canvas 0"
    using end_to_end_scenario [of test_library 0] by blast
  have "canvas = \<lparr>rows = 480, cols = 640, pixels = (\<lambda>r c. (20, 10, 6))\<rparr>"
    using same_draw_layers [OF d] .
  then have "frames ! 0 = \<lparr>rows = 480, cols = 640, pixels = (\<lambda>r c. (20, 10, 6))\<rparr>"
    using f by (simp add: same_apply_reality_distortion)
  then show ?thesis using r l a t b by blast
qed

end
